theory Spec2Isabelle
  imports
    Main
    "HOL-Library.AList"
    "HOL-Library.Char_ord"
    "HOL-Library.List_Lexorder"
begin

section \<open>Values, dictionaries and exceptions\<close>

text \<open>
  Python \<open>bytes\<close> and \<open>str\<close> are both lists of 8-bit characters (a \<open>str\<close> is read
  as its UTF-8 encoding, whose bytewise lexicographic order is the order of the code
  points that Python compares).
\<close>

type_synonym bytes = string

text \<open>
  The JSON-like values held in a resource dictionary: \<open>None\<close>, integers, strings and
  nested dictionaries. A Python \<open>dict\<close> is an association list in insertion order;
  \<open>d[k] = v\<close> is \<open>AList.update k v d\<close> (an existing key keeps its place, a new key
  goes last) and \<open>del d[k]\<close> is \<open>AList.delete k d\<close>.
\<close>

datatype jval = JNone | JInt int | JStr string | JDict "(string \<times> jval) list"

type_synonym resource = "(string \<times> jval) list"

datatype conflict =
    Crc32cMismatch jval string
  | Md5Mismatch jval string
  | BucketNotEmpty string
  | PendingUploads string

datatype error =
    NotFound
  | Conflict conflict
  | KeyError string
  | IndexError
  | TypeError
  | ValueError
  | AttributeError

text \<open>\<open>d.get(k)\<close> on a resource: the value, or \<open>None\<close> for a missing key.\<close>

definition rget :: "resource \<Rightarrow> string \<Rightarrow> jval" where
  "rget d k = (case map_of d k of None \<Rightarrow> JNone | Some v \<Rightarrow> v)"

text \<open>Python truthiness (\<open>if x:\<close>, \<open>not x\<close>).\<close>

fun truthy :: "jval \<Rightarrow> bool" where
  "truthy JNone = False"
| "truthy (JInt n) = (n \<noteq> 0)"
| "truthy (JStr s) = (s \<noteq> [])"
| "truthy (JDict d) = (d \<noteq> [])"

text \<open>
  \<open>a > b\<close>: strings compare lexicographically, integers numerically, and every other
  pairing of these values raises \<open>TypeError\<close>.
\<close>

fun py_gt :: "jval \<Rightarrow> jval \<Rightarrow> error + bool" where
  "py_gt (JStr a) (JStr b) = Inr (b < a)"
| "py_gt (JInt a) (JInt b) = Inr (b < a)"
| "py_gt _ _ = Inl TypeError"

subsection \<open>Decimal numerals\<close>

definition digit_char :: "nat \<Rightarrow> char" where
  "digit_char d = ''0123456789'' ! (d mod 10)"

fun str_of_nat :: "nat \<Rightarrow> string" where
  "str_of_nat n =
     (if n < 10 then [digit_char n] else str_of_nat (n div 10) @ [digit_char (n mod 10)])"

declare str_of_nat.simps [simp del]

text \<open>\<open>str(n)\<close> for an integer.\<close>

definition str_of_int :: "int \<Rightarrow> string" where
  "str_of_int i = (if i < 0 then CHR ''-'' # str_of_nat (nat (- i)) else str_of_nat (nat i))"

text \<open>\<open>s.zfill(w)\<close> on a string of digits: zeros on the left up to width \<open>w\<close>.\<close>

definition zfill :: "nat \<Rightarrow> string \<Rightarrow> string" where
  "zfill w s = replicate (w - length s) CHR ''0'' @ s"

text \<open>
  The format specification \<open>{n:05}\<close>: the sign first, then zeros up to a total
  width of five.
\<close>

definition fmt05 :: "int \<Rightarrow> string" where
  "fmt05 i =
     (if i < 0 then CHR ''-'' # zfill 4 (str_of_nat (nat (- i))) else zfill 5 (str_of_nat (nat i)))"

definition digit_val :: "char \<Rightarrow> nat option" where
  "digit_val c =
     (let k = (of_char c :: nat) in if 48 \<le> k \<and> k \<le> 57 then Some (k - 48) else None)"

definition is_space :: "char \<Rightarrow> bool" where
  "is_space c = (c \<in> set [CHR '' '', CHR 0x09, CHR 0x0A, CHR 0x0B, CHR 0x0C, CHR 0x0D])"

definition strip :: "string \<Rightarrow> string" where
  "strip s = rev (dropWhile is_space (rev (dropWhile is_space s)))"

text \<open>
  The digits of an integer literal, most significant first, read into an accumulator;
  single underscores may stand between two digits.
\<close>

fun read_digits :: "nat \<Rightarrow> string \<Rightarrow> nat option" where
  "read_digits acc [] = Some acc"
| "read_digits acc (c # cs) =
     (if c = CHR ''_'' then
        (case cs of
           [] \<Rightarrow> None
         | d # _ \<Rightarrow> (if digit_val d = None then None else read_digits acc cs))
      else
        (case digit_val c of
           None \<Rightarrow> None
         | Some v \<Rightarrow> read_digits (10 * acc + v) cs))"

definition nat_of_digits :: "string \<Rightarrow> nat option" where
  "nat_of_digits s =
     (case s of
        [] \<Rightarrow> None
      | c # _ \<Rightarrow> (if digit_val c = None then None else read_digits 0 s))"

text \<open>\<open>int(s)\<close> for a string: surrounding white space, an optional sign, the digits.\<close>

definition int_of_str :: "string \<Rightarrow> error + int" where
  "int_of_str s =
     (let t = strip s;
          r = (case t of
                 [] \<Rightarrow> None
               | c # cs \<Rightarrow>
                   (if c = CHR ''-'' then map_option (\<lambda>n. - int n) (nat_of_digits cs)
                    else if c = CHR ''+'' then map_option int (nat_of_digits cs)
                    else map_option int (nat_of_digits t)))
      in case r of None \<Rightarrow> Inl ValueError | Some i \<Rightarrow> Inr i)"

text \<open>\<open>int(x)\<close> for a value of a resource.\<close>

fun py_int :: "jval \<Rightarrow> error + int" where
  "py_int (JInt i) = Inr i"
| "py_int (JStr s) = int_of_str s"
| "py_int _ = Inl TypeError"

subsection \<open>Base64\<close>

definition b64_alphabet :: string where
  "b64_alphabet = ''ABCDEFGHIJKLMNOPQRSTUVWXYZabcdefghijklmnopqrstuvwxyz0123456789+/''"

definition b64_char :: "nat \<Rightarrow> char" where
  "b64_char n = b64_alphabet ! (n mod 64)"

text \<open>\<open>base64.b64encode(bs).decode("ascii")\<close>.\<close>

fun b64encode :: "bytes \<Rightarrow> string" where
  "b64encode [] = []"
| "b64encode [a] =
     (let x = (of_char a :: nat) in
      [b64_char (x div 4), b64_char ((x mod 4) * 16), CHR ''='', CHR ''=''])"
| "b64encode [a, b] =
     (let x = (of_char a :: nat); y = (of_char b :: nat) in
      [b64_char (x div 4), b64_char ((x mod 4) * 16 + y div 16),
       b64_char ((y mod 16) * 4), CHR ''=''])"
| "b64encode (a # b # c # rest) =
     (let x = (of_char a :: nat); y = (of_char b :: nat); z = (of_char c :: nat) in
      [b64_char (x div 4), b64_char ((x mod 4) * 16 + y div 16),
       b64_char ((y mod 16) * 4 + z div 64), b64_char (z mod 64)] @ b64encode rest)"

section \<open>Checksums (checksums.py)\<close>

text \<open>
  The digest functions come from libraries outside the repository
  (\<open>google_crc32c.Checksum(..).digest()\<close>, \<open>hashlib.md5(..).digest()\<close> and
  \<open>hashlib.sha256(..).hexdigest()\<close>), and so does the printed form of a dictionary
  (\<open>str(d)\<close>); the program is modelled for any such functions.
\<close>

record extern =
  crc32c_digest :: "bytes \<Rightarrow> bytes"
  md5_digest :: "bytes \<Rightarrow> bytes"
  sha256_hexdigest :: "string \<Rightarrow> string"
  dict_repr :: "(string \<times> jval) list \<Rightarrow> string"

definition crc32c_b64 :: "extern \<Rightarrow> bytes \<Rightarrow> string" where
  "crc32c_b64 L content = b64encode (crc32c_digest L content)"

definition md5_b64 :: "extern \<Rightarrow> bytes \<Rightarrow> string" where
  "md5_b64 L content = b64encode (md5_digest L content)"

text \<open>
  \<open>checksums(content, file_obj)\<close> mutates \<open>file_obj\<close> and returns it, or raises
  \<open>Conflict\<close>. The result is the dictionary as the call leaves it, and the exception
  raised, if any.
\<close>

definition checksums :: "extern \<Rightarrow> bytes \<Rightarrow> resource \<Rightarrow> resource \<times> error option" where
  "checksums L content file_obj =
     (let crc32c_hash = crc32c_b64 L content;
          obj_crc32c = rget file_obj ''crc32c'';
          md5_hash = md5_b64 L content;
          obj_md5 = rget file_obj ''md5Hash''
      in
      if truthy obj_crc32c \<and> obj_crc32c \<noteq> JStr crc32c_hash then
        (file_obj, Some (Conflict (Crc32cMismatch obj_crc32c crc32c_hash)))
      else
        let o1 = (if \<not> truthy obj_crc32c
                  then AList.update ''crc32c'' (JStr crc32c_hash) file_obj else file_obj)
        in
        if truthy obj_md5 \<and> obj_md5 \<noteq> JStr md5_hash then
          (o1, Some (Conflict (Md5Mismatch obj_md5 md5_hash)))
        else
          let o2 = (if \<not> truthy obj_md5
                    then AList.update ''md5Hash'' (JStr md5_hash) o1 else o1);
              o3 = (if \<not> truthy (rget o2 ''etag'')
                    then AList.update ''etag'' (JStr md5_hash) o2 else o2)
          in (o3, None))"

section \<open>The storage engine (storage.py)\<close>

text \<open>
  The byte store is the \<open>fs\<close> library, outside the repository. It is modelled by its
  contract: a partial map from a top-level container (a bucket, or one of the two
  reserved directories) and a path inside it to the bytes stored there. Writing creates
  the parent directories on demand (\<open>_get_or_create_dir\<close>), so a write to a container
  and path always lands at that key; reading a missing key raises \<open>ResourceNotFound\<close>.
  A source name with a leading underscore is written with the prefix \<open>u_\<close>.
\<close>

type_synonym filesystem = "string \<times> string \<Rightarrow> bytes option"

type_synonym snapshot =
  "(string \<times> resource) list \<times> (string \<times> (string \<times> resource) list) list \<times>
   (string \<times> resource) list \<times> (string \<times> resource) list"

text \<open>
  The state of a \<open>Storage\<close>: the four dictionaries of the catalog, the byte store and
  the content last written to the \<open>.meta\<close> file (\<open>None\<close> before the first write).
\<close>

record storage =
  buckets :: "(string \<times> resource) list"
  objects :: "(string \<times> (string \<times> resource) list) list"
  resumable :: "(string \<times> resource) list"
  multipart :: "(string \<times> resource) list"
  files :: filesystem
  meta_file :: "snapshot option"

definition RESUMABLE_DIR :: string where
  "RESUMABLE_DIR = ''_resumable''"

definition MULTIPART_DIR :: string where
  "MULTIPART_DIR = ''_multipart''"

text \<open>A fresh storage, as \<open>__init__\<close> leaves it when no \<open>.meta\<close> file exists.\<close>

definition init_storage :: storage where
  "init_storage =
     \<lparr>buckets = [], objects = [], resumable = [], multipart = [],
      files = (\<lambda>_. None), meta_file = None\<rparr>"

definition u_write_config_to_file :: "storage \<Rightarrow> storage" where
  "u_write_config_to_file st =
     st\<lparr>meta_file := Some (buckets st, objects st, resumable st, multipart st)\<rparr>"

definition safe_id :: "extern \<Rightarrow> string \<Rightarrow> string" where
  "safe_id L file_id = sha256_hexdigest L file_id"

definition get_bucket :: "storage \<Rightarrow> string \<Rightarrow> resource option" where
  "get_bucket st bucket_name = map_of (buckets st) bucket_name"

text \<open>\<open>self.objects.get(bucket_name, {})\<close>: the objects of a bucket, by key.\<close>

definition objects_get :: "storage \<Rightarrow> string \<Rightarrow> (string \<times> resource) list" where
  "objects_get st bucket_name =
     (case map_of (objects st) bucket_name of None \<Rightarrow> [] | Some d \<Rightarrow> d)"

subsection \<open>Listing\<close>

text \<open>\<open>s.startswith(p)\<close>, \<open>d in s\<close> and \<open>s.split(d, 1)[0]\<close> for a non-empty \<open>d\<close>.\<close>

definition startswith :: "string \<Rightarrow> string \<Rightarrow> bool" where
  "startswith s p = (take (length p) s = p)"

fun contains :: "string \<Rightarrow> string \<Rightarrow> bool" where
  "contains d [] = (d = [])"
| "contains d (c # cs) = (startswith (c # cs) d \<or> contains d cs)"

fun before_first :: "string \<Rightarrow> string \<Rightarrow> string" where
  "before_first d [] = []"
| "before_first d (c # cs) = (if startswith (c # cs) d then [] else c # before_first d cs)"

text \<open>Truthiness of an optional string argument (\<open>None\<close> and \<open>""\<close> are falsy).\<close>

fun str_truthy :: "string option \<Rightarrow> bool" where
  "str_truthy None = False"
| "str_truthy (Some s) = (s \<noteq> [])"

definition get_file_list ::
  "storage \<Rightarrow> string \<Rightarrow> string option \<Rightarrow> string option \<Rightarrow>
   error + (resource list \<times> string list)" where
  "get_file_list st bucket_name pfx delimiter =
     (if map_of (buckets st) bucket_name = None then Inl NotFound
      else
        let bucket_objects = objects_get st bucket_name;
            prefix_len = (if str_truthy pfx then length (the pfx) else 0);
            objs =
              (if str_truthy pfx then
                 map snd
                   (filter
                      (\<lambda>(file_name, file_object).
                         startswith file_name (the pfx) \<and>
                         (\<not> str_truthy delimiter \<or>
                          \<not> contains (the delimiter) (drop prefix_len file_name)))
                      bucket_objects)
               else map snd bucket_objects);
            prefixes =
              (if str_truthy delimiter then
                 map (\<lambda>file_name.
                        take prefix_len file_name
                        @ before_first (the delimiter) (drop prefix_len file_name)
                        @ the delimiter)
                   (filter
                      (\<lambda>file_name.
                         startswith file_name (if str_truthy pfx then the pfx else [])
                         \<and> contains (the delimiter) (drop prefix_len file_name))
                      (map fst bucket_objects))
               else [])
        in Inr (objs, prefixes))"

subsection \<open>Buckets, objects and files\<close>

definition create_bucket :: "storage \<Rightarrow> string \<Rightarrow> resource \<Rightarrow> resource \<times> storage" where
  "create_bucket st bucket_name bucket_obj =
     (bucket_obj,
      u_write_config_to_file (st\<lparr>buckets := AList.update bucket_name bucket_obj (buckets st)\<rparr>))"

definition u_delete_file :: "storage \<Rightarrow> string \<Rightarrow> string \<Rightarrow> storage" where
  "u_delete_file st bucket_name file_name =
     st\<lparr>files := (files st)((bucket_name, file_name) := None)\<rparr>"

definition u_delete_dir :: "storage \<Rightarrow> string \<Rightarrow> storage" where
  "u_delete_dir st path =
     st\<lparr>files := (\<lambda>(c, k). if c = path then None else files st (c, k))\<rparr>"

definition write_file :: "storage \<Rightarrow> string \<Rightarrow> string \<Rightarrow> bytes \<Rightarrow> storage" where
  "write_file st bucket_name file_name content =
     st\<lparr>files := (files st)((bucket_name, file_name) \<mapsto> content)\<rparr>"

definition get_file :: "storage \<Rightarrow> string \<Rightarrow> string \<Rightarrow> error + bytes" where
  "get_file st bucket_name file_name =
     (case files st (bucket_name, file_name) of
        None \<Rightarrow> Inl NotFound
      | Some content \<Rightarrow> Inr content)"

definition get_file_obj :: "storage \<Rightarrow> string \<Rightarrow> string \<Rightarrow> error + resource" where
  "get_file_obj st bucket_name file_name =
     (case map_of (objects st) bucket_name of
        None \<Rightarrow> Inl NotFound
      | Some bucket_objects \<Rightarrow>
          (case map_of bucket_objects file_name of
             None \<Rightarrow> Inl NotFound
           | Some file_obj \<Rightarrow> Inr file_obj))"

definition get_resumable_file_obj :: "storage \<Rightarrow> string \<Rightarrow> error + resource" where
  "get_resumable_file_obj st file_id =
     (case map_of (resumable st) file_id of
        None \<Rightarrow> Inl NotFound
      | Some file_obj \<Rightarrow> Inr file_obj)"

definition delete_resumable_file_obj :: "storage \<Rightarrow> string \<Rightarrow> (error + unit) \<times> storage" where
  "delete_resumable_file_obj st file_id =
     (case map_of (resumable st) file_id of
        None \<Rightarrow> (Inl NotFound, st)
      | Some _ \<Rightarrow> (Inr (), st\<lparr>resumable := AList.delete file_id (resumable st)\<rparr>))"

text \<open>
  \<open>create_file\<close>: the bytes are written and the resource installed before the resumable
  session, if one is named, is retired; an unknown session id raises \<open>NotFound\<close> at
  that point, after the in-memory changes and before the snapshot is rewritten.
\<close>

definition create_file ::
  "extern \<Rightarrow> storage \<Rightarrow> string \<Rightarrow> string \<Rightarrow> bytes \<Rightarrow> resource \<Rightarrow> string option \<Rightarrow>
   (error + unit) \<times> storage" where
  "create_file L st bucket_name file_name content file_obj file_id =
     (if map_of (buckets st) bucket_name = None then (Inl NotFound, st)
      else
        let st1 = write_file st bucket_name file_name content;
            bucket_objects = objects_get st1 bucket_name;
            st2 = st1\<lparr>objects :=
                    AList.update bucket_name
                      (AList.update file_name file_obj bucket_objects) (objects st1)\<rparr>
        in
        if str_truthy file_id then
          (case delete_resumable_file_obj st2 (the file_id) of
             (Inl e, st3) \<Rightarrow> (Inl e, st3)
           | (Inr _, st3) \<Rightarrow>
               (Inr (),
                u_write_config_to_file
                  (u_delete_file st3 RESUMABLE_DIR (safe_id L (the file_id)))))
        else (Inr (), u_write_config_to_file st2))"

definition delete_file :: "storage \<Rightarrow> string \<Rightarrow> string \<Rightarrow> (error + unit) \<times> storage" where
  "delete_file st bucket_name file_name =
     (case get_file_obj st bucket_name file_name of
        Inl e \<Rightarrow> (Inl NotFound, st)
      | Inr _ \<Rightarrow>
          (let bucket_objects = the (map_of (objects st) bucket_name);
               st1 = st\<lparr>objects :=
                       AList.update bucket_name (AList.delete file_name bucket_objects)
                         (objects st)\<rparr>
           in (Inr (), u_write_config_to_file (u_delete_file st1 bucket_name file_name))))"

definition delete_bucket :: "storage \<Rightarrow> string \<Rightarrow> (error + unit) \<times> storage" where
  "delete_bucket st bucket_name =
     (case map_of (buckets st) bucket_name of
        None \<Rightarrow> (Inl NotFound, st)
      | Some bucket_meta \<Rightarrow>
          (let bucket_objects = objects_get st bucket_name
           in
           if length (map fst bucket_objects) \<noteq> 0 then
             (Inl (Conflict (BucketNotEmpty bucket_name)), st)
           else
             let resumable_ids =
                   map fst
                     (filter (\<lambda>(file_id, file_obj). rget file_obj ''bucket'' = JStr bucket_name)
                        (resumable st))
             in
             if length resumable_ids \<noteq> 0 then
               (Inl (Conflict (PendingUploads bucket_name)), st)
             else
               (Inr (),
                u_write_config_to_file
                  (u_delete_dir (st\<lparr>buckets := AList.delete bucket_name (buckets st)\<rparr>)
                     bucket_name))))"

subsection \<open>Upload sessions\<close>

text \<open>
  The session identifiers embed \<open>datetime.datetime.now()\<close>; its printed form is the
  argument \<open>now\<close>.
\<close>

definition create_resumable_upload ::
  "storage \<Rightarrow> string \<Rightarrow> string \<Rightarrow> string \<Rightarrow> resource \<Rightarrow> (error + string) \<times> storage" where
  "create_resumable_upload st now bucket_name file_name file_obj =
     (if map_of (buckets st) bucket_name = None then (Inl NotFound, st)
      else
        let file_id = bucket_name @ '':'' @ file_name @ '':'' @ now
        in (Inr file_id,
            u_write_config_to_file
              (st\<lparr>resumable := AList.update file_id file_obj (resumable st)\<rparr>)))"

definition create_xml_multipart_upload ::
  "storage \<Rightarrow> string \<Rightarrow> string \<Rightarrow> string \<Rightarrow> jval \<Rightarrow> jval \<Rightarrow> (error + string) \<times> storage" where
  "create_xml_multipart_upload st now bucket_name file_name content_type metadata =
     (if map_of (buckets st) bucket_name = None then (Inl NotFound, st)
      else
        let upload_id = bucket_name @ '':'' @ file_name @ '':'' @ now
        in (Inr upload_id,
            u_write_config_to_file
              (st\<lparr>multipart :=
                    AList.update upload_id
                      [(''kind'', JStr ''storage#object''),
                       (''bucket_name'', JStr bucket_name),
                       (''id'', JStr file_name),
                       (''metadata'', metadata),
                       (''contentType'', content_type)]
                      (multipart st)\<rparr>)))"

text \<open>The name of the transient file of a part: \<open>f"{safe_id}.{part_number:05}"\<close>.\<close>

definition part_file_id :: "string \<Rightarrow> int \<Rightarrow> string" where
  "part_file_id safe part_number = safe @ ''.'' @ fmt05 part_number"

definition add_to_multipart_upload ::
  "extern \<Rightarrow> storage \<Rightarrow> string \<Rightarrow> int \<Rightarrow> bytes \<Rightarrow> (error + unit) \<times> storage" where
  "add_to_multipart_upload L st upload_id part_number content =
     (case map_of (multipart st) upload_id of
        None \<Rightarrow> (Inl NotFound, st)
      | Some upload \<Rightarrow>
          (Inr (),
           write_file st MULTIPART_DIR
             (part_file_id (safe_id L upload_id) part_number) content))"

text \<open>
  The loop \<open>for part_number in range(1, 10001)\<close> of \<open>complete_multipart_upload\<close>, from
  \<open>part_number\<close> on: a part that is found is appended and its file deleted; the first
  missing part ends the loop.
\<close>

function read_parts :: "string \<Rightarrow> int \<Rightarrow> bytes \<Rightarrow> storage \<Rightarrow> bytes \<times> storage" where
  "read_parts safe part_number content st =
     (if 10000 < part_number then (content, st)
      else
        (case get_file st MULTIPART_DIR (part_file_id safe part_number) of
           Inl e \<Rightarrow> (content, st)
         | Inr part_content \<Rightarrow>
             read_parts safe (part_number + 1) (content @ part_content)
               (u_delete_file st MULTIPART_DIR (part_file_id safe part_number))))"
  by pat_completeness auto
termination
  by (relation "measure (\<lambda>(safe, part_number, content, st). nat (10001 - part_number))") auto

declare read_parts.simps [simp del]

text \<open>
  \<open>complete_multipart_upload\<close>; \<open>now\<close> is \<open>datetime.datetime.now().isoformat()\<close>. The
  target names are read from the session with \<open>get\<close>; the byte store needs strings,
  and anything else is a \<open>TypeError\<close>.
\<close>

definition complete_multipart_upload ::
  "extern \<Rightarrow> storage \<Rightarrow> string \<Rightarrow> string \<Rightarrow> (error + unit) \<times> storage" where
  "complete_multipart_upload L st now upload_id =
     (case map_of (multipart st) upload_id of
        None \<Rightarrow> (Inl NotFound, st)
      | Some upload \<Rightarrow>
          (case (rget upload ''id'', rget upload ''bucket_name'') of
             (JStr file_name, JStr bucket_name) \<Rightarrow>
               (let (content, st1) = read_parts (safe_id L upload_id) 1 [] st;
                    st2 = write_file st1 bucket_name file_name content;
                    (file_obj, err) =
                      checksums L content
                        (AList.update ''updated'' (JStr now)
                           (AList.update ''size'' (JInt (int (length content))) upload))
                in
                case err of
                  Some e \<Rightarrow> (Inl e, st2)
                | None \<Rightarrow>
                    (let bucket_objects = objects_get st2 bucket_name
                     in (Inr (),
                         u_write_config_to_file
                           (st2\<lparr>objects :=
                                  AList.update bucket_name
                                    (AList.update file_name file_obj bucket_objects)
                                    (objects st2)\<rparr>))))
           | _ \<Rightarrow> (Inl TypeError, st)))"

text \<open>\<open>xs[:n]\<close> for an integer \<open>n\<close>: a negative \<open>n\<close> counts from the end.\<close>

definition slice_to :: "int \<Rightarrow> 'a list \<Rightarrow> 'a list" where
  "slice_to n xs = (if 0 \<le> n then take (nat n) xs else take (length xs - nat (- n)) xs)"

text \<open>
  \<open>add_to_resumable_upload\<close> returns the content when the session is complete and
  \<open>None\<close> otherwise.
\<close>

definition add_to_resumable_upload ::
  "extern \<Rightarrow> storage \<Rightarrow> string \<Rightarrow> bytes \<Rightarrow> int \<Rightarrow> (error + bytes option) \<times> storage" where
  "add_to_resumable_upload L st file_id content total_size =
     (let safe = safe_id L file_id;
          file_content =
            (case get_file st RESUMABLE_DIR safe of
               Inl e \<Rightarrow> []
             | Inr previous \<Rightarrow> previous) @ content;
          st1 = write_file st RESUMABLE_DIR safe file_content;
          size = int (length file_content)
      in
      if total_size \<le> size then (Inr (Some (slice_to total_size file_content)), st1)
      else (Inr None, st1))"

text \<open>\<open>patch_object\<close> of the storage: a silent no-op when the object is unknown.\<close>

definition patch_object :: "storage \<Rightarrow> string \<Rightarrow> string \<Rightarrow> resource \<Rightarrow> storage" where
  "patch_object st bucket_name file_name file_obj =
     (case map_of (objects st) bucket_name of
        None \<Rightarrow> st
      | Some bucket_objects \<Rightarrow>
          (if bucket_objects \<noteq> [] \<and>
              (case map_of bucket_objects file_name of None \<Rightarrow> False | Some old \<Rightarrow> old \<noteq> [])
           then u_write_config_to_file
                  (st\<lparr>objects :=
                        AList.update bucket_name
                          (AList.update file_name file_obj bucket_objects) (objects st)\<rparr>)
           else st))"

section \<open>Object handlers (handlers/objects.py)\<close>

definition WRITABLE_FIELDS :: "string list" where
  "WRITABLE_FIELDS =
     [''cacheControl'', ''contentDisposition'', ''contentEncoding'', ''contentLanguage'',
      ''contentType'', ''crc32c'', ''customTime'', ''md5Hash'', ''metadata'',
      ''storageClass'']"

text \<open>
  The loop \<open>for key in _WRITABLE_FIELDS\<close> of \<open>_patch_object\<close> over the keys left. The
  comparison of two \<open>customTime\<close> values may raise; the dictionary is returned as the
  loop leaves it, with the exception raised, if any.
\<close>

fun patch_fields :: "string list \<Rightarrow> resource \<Rightarrow> resource \<Rightarrow> resource \<times> error option" where
  "patch_fields [] obj metadata = (obj, None)"
| "patch_fields (key # keys) obj metadata =
     (let val = rget metadata key in
      if val \<noteq> JNone then
        (if key = ''customTime'' \<and> truthy (rget obj key) then
           (case py_gt (rget obj key) val of
              Inl e \<Rightarrow> (obj, Some e)
            | Inr True \<Rightarrow> patch_fields keys obj metadata
            | Inr False \<Rightarrow> patch_fields keys (AList.update key val obj) metadata)
         else patch_fields keys (AList.update key val obj) metadata)
      else patch_fields keys obj metadata)"

definition u_patch_object :: "resource \<Rightarrow> jval \<Rightarrow> resource \<times> error option" where
  "u_patch_object obj metadata =
     (if truthy metadata then
        (case map_of obj ''metageneration'' of
           None \<Rightarrow> (obj, Some (KeyError ''metageneration''))
         | Some mg \<Rightarrow>
             (case py_int mg of
                Inl e \<Rightarrow> (obj, Some e)
              | Inr i \<Rightarrow>
                  (let obj1 = AList.update ''metageneration'' (JStr (str_of_int (i + 1))) obj
                   in case metadata of
                        JDict md \<Rightarrow> patch_fields WRITABLE_FIELDS obj1 md
                      | _ \<Rightarrow> (obj1, Some AttributeError))))
      else (obj, None))"

text \<open>\<open>"{}".format(x)\<close> for a value.\<close>

fun py_str :: "extern \<Rightarrow> jval \<Rightarrow> string" where
  "py_str L JNone = ''None''"
| "py_str L (JInt i) = str_of_int i"
| "py_str L (JStr s) = s"
| "py_str L (JDict d) = dict_repr L d"

text \<open>
  \<open>_make_object_resource\<close>; \<open>time_id\<close> is \<open>math.floor(time.time())\<close> and \<open>now\<close> the
  formatted current time.
\<close>

definition u_make_object_resource ::
  "extern \<Rightarrow> int \<Rightarrow> string \<Rightarrow> string \<Rightarrow> string \<Rightarrow> jval \<Rightarrow> jval \<Rightarrow> jval \<Rightarrow> jval \<Rightarrow>
   error + resource" where
  "u_make_object_resource L time_id now burl bucket_name object_name content_type
     content_length metadata =
     (let obj =
        [(''kind'', JStr ''storage#object''),
         (''id'', JStr (bucket_name @ ''/'' @ py_str L object_name @ ''/'' @ str_of_int time_id)),
         (''selfLink'', JStr (''/storage/v1/b/'' @ bucket_name @ ''/o/'' @ py_str L object_name)),
         (''name'', object_name),
         (''bucket'', JStr bucket_name),
         (''generation'', JStr (str_of_int time_id)),
         (''metageneration'', JStr ''1''),
         (''contentType'', content_type),
         (''timeCreated'', JStr now),
         (''updated'', JStr now),
         (''storageClass'', JStr ''STANDARD''),
         (''timeStorageClassUpdated'', JStr now),
         (''size'', content_length),
         (''md5Hash'', JNone),
         (''mediaLink'',
            JStr (burl @ ''/download/storage/v1/b/'' @ bucket_name @ ''/o/''
                  @ py_str L object_name @ ''?generation='' @ str_of_int time_id
                  @ ''&alt=media'')),
         (''crc32c'', JNone),
         (''etag'', JNone)]
      in case u_patch_object obj metadata of
           (obj1, Some e) \<Rightarrow> Inl e
         | (obj1, None) \<Rightarrow> Inr obj1)"

text \<open>
  A request as the handlers read it: the base URL, the route parameters, the query (a
  list of values for each name), the headers and the body.
\<close>

record 'd request =
  base_url :: string
  params :: "(string \<times> string) list"
  query :: "(string \<times> string list) list"
  headers :: "(string \<times> string) list"
  data :: 'd

text \<open>The parsed body of a JSON multipart upload: \<open>meta\<close>, \<open>content\<close>, \<open>content-type\<close>.\<close>

record multipart_body =
  mp_meta :: resource
  mp_content :: bytes
  mp_content_type :: jval

definition get_header :: "'d request \<Rightarrow> string \<Rightarrow> jval \<Rightarrow> jval" where
  "get_header req name dflt = (case map_of (headers req) name of None \<Rightarrow> dflt | Some v \<Rightarrow> JStr v)"

text \<open>\<open>request.query[name][0]\<close>.\<close>

definition query_first :: "'d request \<Rightarrow> string \<Rightarrow> error + string" where
  "query_first req name =
     (case map_of (query req) name of
        None \<Rightarrow> Inl (KeyError name)
      | Some [] \<Rightarrow> Inl IndexError
      | Some (v # _) \<Rightarrow> Inr v)"

definition u_content_type_from_request :: "'d request \<Rightarrow> jval \<Rightarrow> error + jval" where
  "u_content_type_from_request req dflt =
     (if map_of (query req) ''contentEncoding'' \<noteq> None
      then map_sum id JStr (query_first req ''contentEncoding'')
      else Inr dflt)"

text \<open>
  \<open>_media_upload\<close>: the result is the resource written to the response, or the
  exception that leaves the handler, and the storage afterwards.
\<close>

definition u_media_upload ::
  "extern \<Rightarrow> int \<Rightarrow> string \<Rightarrow> bytes request \<Rightarrow> storage \<Rightarrow> (error + resource) \<times> storage" where
  "u_media_upload L time_id now req st =
     (case query_first req ''name'' of
        Inl e \<Rightarrow> (Inl e, st)
      | Inr object_id \<Rightarrow>
     (case u_content_type_from_request req (get_header req ''content-type'' JNone) of
        Inl e \<Rightarrow> (Inl e, st)
      | Inr content_type \<Rightarrow>
     (case map_of (params req) ''bucket_name'' of
        None \<Rightarrow> (Inl (KeyError ''bucket_name''), st)
      | Some bucket_name \<Rightarrow>
     (case u_make_object_resource L time_id now (base_url req) bucket_name (JStr object_id)
             content_type (JStr (str_of_nat (length (data req)))) JNone of
        Inl e \<Rightarrow> (Inl e, st)
      | Inr obj0 \<Rightarrow>
     (case checksums L (data req) obj0 of
        (obj, Some e) \<Rightarrow> (Inl e, st)
      | (obj, None) \<Rightarrow>
     (case create_file L st bucket_name object_id (data req) obj None of
        (Inl e, st1) \<Rightarrow> (Inl e, st1)
      | (Inr _, st1) \<Rightarrow> (Inr obj, st1)))))))"

text \<open>
  \<open>_multipart_upload\<close>. The object name comes from the metadata unless the query
  names one; \<open>create_file\<close> checks the bucket first and then needs a string for the
  path, anything else being a \<open>TypeError\<close>.
\<close>

definition u_multipart_upload ::
  "extern \<Rightarrow> int \<Rightarrow> string \<Rightarrow> multipart_body request \<Rightarrow> storage \<Rightarrow>
   (error + resource) \<times> storage" where
  "u_multipart_upload L time_id now req st =
     (case (if map_of (query req) ''name'' \<noteq> None
            then map_sum id JStr (query_first req ''name'')
            else Inr (rget (mp_meta (data req)) ''name'')) of
        Inl e \<Rightarrow> (Inl e, st)
      | Inr object_id \<Rightarrow>
     (case u_content_type_from_request req (mp_content_type (data req)) of
        Inl e \<Rightarrow> (Inl e, st)
      | Inr content_type \<Rightarrow>
     (case map_of (params req) ''bucket_name'' of
        None \<Rightarrow> (Inl (KeyError ''bucket_name''), st)
      | Some bucket_name \<Rightarrow>
     (case u_make_object_resource L time_id now (base_url req) bucket_name object_id
             content_type (JStr (str_of_nat (length (mp_content (data req)))))
             (JDict (mp_meta (data req))) of
        Inl e \<Rightarrow> (Inl e, st)
      | Inr obj0 \<Rightarrow>
     (case checksums L (mp_content (data req)) obj0 of
        (obj, Some e) \<Rightarrow> (Inl e, st)
      | (obj, None) \<Rightarrow>
     (case object_id of
        JStr file_name \<Rightarrow>
          (case create_file L st bucket_name file_name (mp_content (data req)) obj None of
             (Inl e, st1) \<Rightarrow> (Inl e, st1)
           | (Inr _, st1) \<Rightarrow> (Inr obj, st1))
      | _ \<Rightarrow>
          (if map_of (buckets st) bucket_name = None then (Inl NotFound, st)
           else (Inl TypeError, st))))))))"

section \<open>Predicates and sample inputs used in the statements\<close>

text \<open>
  A resource carries a checksum when the value under its key is truthy; the checksum
  conflicts when it is carried and differs from the computed one.
\<close>

definition crc32c_conflict :: "extern \<Rightarrow> bytes \<Rightarrow> resource \<Rightarrow> bool" where
  "crc32c_conflict L content r =
     (truthy (rget r ''crc32c'') \<and> rget r ''crc32c'' \<noteq> JStr (crc32c_b64 L content))"

definition md5_conflict :: "extern \<Rightarrow> bytes \<Rightarrow> resource \<Rightarrow> bool" where
  "md5_conflict L content r =
     (truthy (rget r ''md5Hash'') \<and> rget r ''md5Hash'' \<noteq> JStr (md5_b64 L content))"

text \<open>
  Stand-ins for the library functions, for evaluating the program on concrete inputs;
  every theorem below holds for all library functions.
\<close>

definition sample_extern :: extern where
  "sample_extern =
     \<lparr>crc32c_digest = take 4, md5_digest = rev, sha256_hexdigest = (\<lambda>s. s),
      dict_repr = (\<lambda>d. ''{}'')\<rparr>"

text \<open>A storage holding the single empty bucket \<open>b\<close>.\<close>

definition one_bucket :: storage where
  "one_bucket = snd (create_bucket init_storage ''b'' [(''name'', JStr ''b'')])"

text \<open>
  A JSON multipart upload of the bytes \<open>abc\<close> to the object \<open>k\<close> of bucket \<open>b\<close> whose
  metadata claims the CRC-32C \<open>AAAA\<close>, and a media upload to a bucket that does not
  exist.
\<close>

definition bad_crc_request :: "multipart_body request" where
  "bad_crc_request =
     \<lparr>base_url = ''http://localhost'', params = [(''bucket_name'', ''b'')], query = [],
      headers = [],
      data = \<lparr>mp_meta = [(''name'', JStr ''k''), (''crc32c'', JStr ''AAAA'')],
               mp_content = ''abc'', mp_content_type = JStr ''text/plain''\<rparr>\<rparr>"

definition lost_media_request :: "bytes request" where
  "lost_media_request =
     \<lparr>base_url = ''http://localhost'', params = [(''bucket_name'', ''nowhere'')],
      query = [(''name'', [''k''])], headers = [], data = ''abc''\<rparr>"

text \<open>
  The \<open>size\<close> of a resource equals a byte length, as the integer the multipart
  completion stores or as the decimal string the upload handlers store.
\<close>

definition size_is :: "resource \<Rightarrow> nat \<Rightarrow> bool" where
  "size_is r n = (rget r ''size'' = JInt (int n) \<or> rget r ''size'' = JStr (str_of_nat n))"

text \<open>The buffer of a resumable session: the bytes of its transient file, empty when absent.\<close>

definition resumable_buffer :: "extern \<Rightarrow> storage \<Rightarrow> string \<Rightarrow> bytes" where
  "resumable_buffer L st file_id =
     (case files st (RESUMABLE_DIR, safe_id L file_id) of None \<Rightarrow> [] | Some b \<Rightarrow> b)"

text \<open>Some resumable session targets the bucket.\<close>

definition has_pending_upload :: "storage \<Rightarrow> string \<Rightarrow> bool" where
  "has_pending_upload st bucket_name =
     list_ex (\<lambda>(file_id, file_obj). rget file_obj ''bucket'' = JStr bucket_name) (resumable st)"

text \<open>
  The bucket \<open>b\<close> holding one object, and the empty bucket \<open>b\<close> with a resumable
  session that targets it.
\<close>

definition bucket_with_object :: storage where
  "bucket_with_object =
     snd (create_file sample_extern one_bucket ''b'' ''k'' ''x'' [(''name'', JStr ''k'')] None)"

definition bucket_with_session :: storage where
  "bucket_with_session =
     snd (create_resumable_upload one_bucket ''t'' ''b'' ''k''
            [(''name'', JStr ''k''), (''bucket'', JStr ''b'')])"




text \<open>
  The assembly as the specification words it: the part numbers 1 to 10000 in ascending
  order up to the first one without a stored part, and the concatenation of the parts
  stored under these numbers.
\<close>

definition part_of :: "storage \<Rightarrow> string \<Rightarrow> int \<Rightarrow> bytes option" where
  "part_of st safe part_number = files st (MULTIPART_DIR, part_file_id safe part_number)"

definition parts_found :: "storage \<Rightarrow> string \<Rightarrow> int \<Rightarrow> int list" where
  "parts_found st safe start = takeWhile (\<lambda>n. part_of st safe n \<noteq> None) [start..10000]"

definition assembled :: "storage \<Rightarrow> string \<Rightarrow> bytes" where
  "assembled st safe = concat (map (\<lambda>n. the (part_of st safe n)) (parts_found st safe 1))"

text \<open>The value of a string of decimal digits.\<close>

definition digits_value :: "string \<Rightarrow> nat" where
  "digits_value s = foldl (\<lambda>a c. 10 * a + (of_char c - 48)) 0 s"

text \<open>
  A multipart session for the object \<open>k\<close> of bucket \<open>b\<close>, with the upload id
  \<open>b:k:t\<close>, and the upload of a list of numbered parts in the order given.
\<close>

definition session_started :: storage where
  "session_started =
     snd (create_xml_multipart_upload one_bucket ''t'' ''b'' ''k'' (JStr ''text/plain'') (JDict []))"

fun add_parts :: "extern \<Rightarrow> storage \<Rightarrow> string \<Rightarrow> (int \<times> bytes) list \<Rightarrow> storage" where
  "add_parts L st upload_id [] = st"
| "add_parts L st upload_id ((part_number, content) # rest) =
     add_parts L (snd (add_to_multipart_upload L st upload_id part_number content)) upload_id rest"

text \<open>The session \<open>b:k:t\<close> after its parts 2 \<open>cd\<close> and 1 \<open>ab\<close> have been uploaded.\<close>

definition two_parts_uploaded :: storage where
  "two_parts_uploaded =
     add_parts sample_extern session_started ''b:k:t'' [(2, ''cd''), (1, ''ab'')]"

definition session_resource :: resource where
  "session_resource =
     [(''kind'', JStr ''storage#object''), (''bucket_name'', JStr ''b''), (''id'', JStr ''k''),
      (''metadata'', JDict []), (''contentType'', JStr ''text/plain'')]"

text \<open>The storage after that session has been completed.\<close>

definition session_completed :: storage where
  "session_completed =
     snd (complete_multipart_upload sample_extern two_parts_uploaded ''now'' ''b:k:t'')"

text \<open>
  The bucket \<open>b\<close> after the objects named in a list have been created, in that order,
  each with a one-byte content and a resource that carries its name.
\<close>

fun create_objects :: "storage \<Rightarrow> string list \<Rightarrow> storage" where
  "create_objects st [] = st"
| "create_objects st (file_name # rest) =
     create_objects
       (snd (create_file sample_extern st ''b'' file_name ''x'' [(''name'', JStr file_name)] None))
       rest"

definition folder_listing :: storage where
  "folder_listing = create_objects one_bucket [''a/1.txt'', ''a/b/2.txt'', ''a/c/3.txt'', ''z.txt'']"

definition shared_folder :: storage where
  "shared_folder = create_objects one_bucket [''a/b/1.txt'', ''a/b/2.txt'']"

section \<open>Properties of the storage engine\<close>

subsection \<open>Shared lemmas\<close>

lemma rget_update: "rget (AList.update k v d) k' = (if k' = k then v else rget d k')"
  by (simp add: rget_def update_conv')

lemma create_file_no_session_error:
  "create_file L st b f c obj None = (Inl e, st') \<Longrightarrow> st' = st \<and> e = NotFound"
  by (auto simp: create_file_def Let_def split: if_splits)

lemma media_upload_error:
  "u_media_upload L t now req st = (Inl e, st') \<Longrightarrow> st' = st"
  unfolding u_media_upload_def
  by (auto split: sum.splits option.splits prod.splits dest: create_file_no_session_error)

lemma multipart_upload_tail:
  "(case object_id of
      JStr file_name \<Rightarrow>
        (case create_file L st bucket_name file_name c obj None of
           (Inl e, st1) \<Rightarrow> (Inl e, st1)
         | (Inr _, st1) \<Rightarrow> (Inr obj, st1))
    | _ \<Rightarrow>
        (if map_of (buckets st) bucket_name = None then (Inl NotFound, st)
         else (Inl TypeError, st))) = (Inl e, st') \<Longrightarrow> st' = st"
  by (cases object_id)
     (auto split: prod.splits sum.splits if_splits dest: create_file_no_session_error)

lemma multipart_upload_error:
  "u_multipart_upload L t now req st = (Inl e, st') \<Longrightarrow> st' = st"
  unfolding u_multipart_upload_def
  by (simp split: sum.splits option.splits prod.splits add: multipart_upload_tail)

lemma multipart_upload_conflict:
  assumes "map_of (params req) ''bucket_name'' = Some bucket_name"
    and "map_of (query req) ''name'' = None"
    and "map_of (query req) ''contentEncoding'' = None"
    and "u_make_object_resource L t now (base_url req) bucket_name
           (rget (mp_meta (data req)) ''name'') (mp_content_type (data req))
           (JStr (str_of_nat (length (mp_content (data req)))))
           (JDict (mp_meta (data req))) = Inr obj0"
    and "snd (checksums L (mp_content (data req)) obj0) = Some e"
  shows "u_multipart_upload L t now req st = (Inl e, st)"
  using assms unfolding u_multipart_upload_def u_content_type_from_request_def
  by (auto split: prod.splits)

subsection \<open>Checksum reconciliation\<close>

text \<open>
  C1. For every content and resource, \<open>checksums\<close> computes the base64 encodings of
  the CRC-32C and MD5 digests of the content, and a call that returns leaves exactly
  these under \<open>crc32c\<close> and \<open>md5Hash\<close>. A resource that carries no \<open>crc32c\<close> gets the
  computed one; a resource that carries a different one makes the call raise the
  checksum \<open>Conflict\<close>, the resource untouched. Once the CRC-32C check has passed, the
  same two rules hold for \<open>md5Hash\<close>, whether the \<open>crc32c\<close> was absent or matched, and
  a differing \<open>md5Hash\<close> makes the call raise a \<open>Conflict\<close> in every case. The call
  returns exactly when neither checksum conflicts, and then a resource without \<open>etag\<close>
  gets the MD5 digest of the content as its \<open>etag\<close>, while an \<open>etag\<close> it carries is
  kept. In the write paths \<open>_media_upload\<close> and \<open>_multipart_upload\<close> the storage is
  reached only after \<open>checksums\<close> has returned: an upload that ends in an exception
  leaves the storage as it was, and a \<open>Conflict\<close> raised by \<open>checksums\<close> is the
  outcome of the multipart upload.
\<close>

theorem checksums_reconcile:
  "(snd (checksums L content r) = None \<longrightarrow>
      rget (fst (checksums L content r)) ''crc32c'' = JStr (b64encode (crc32c_digest L content)) \<and>
      rget (fst (checksums L content r)) ''md5Hash'' = JStr (b64encode (md5_digest L content)))
   \<and> (\<not> truthy (rget r ''crc32c'') \<longrightarrow>
      rget (fst (checksums L content r)) ''crc32c'' = JStr (crc32c_b64 L content))
   \<and> (crc32c_conflict L content r \<longrightarrow>
      checksums L content r =
        (r, Some (Conflict (Crc32cMismatch (rget r ''crc32c'') (crc32c_b64 L content)))))
   \<and> (\<not> crc32c_conflict L content r \<and> \<not> truthy (rget r ''md5Hash'') \<longrightarrow>
      rget (fst (checksums L content r)) ''md5Hash'' = JStr (md5_b64 L content))
   \<and> (\<not> crc32c_conflict L content r \<and> md5_conflict L content r \<longrightarrow>
      snd (checksums L content r) =
        Some (Conflict (Md5Mismatch (rget r ''md5Hash'') (md5_b64 L content))))
   \<and> (md5_conflict L content r \<longrightarrow> (\<exists>c. snd (checksums L content r) = Some (Conflict c)))
   \<and> (snd (checksums L content r) = None \<longleftrightarrow>
        \<not> crc32c_conflict L content r \<and> \<not> md5_conflict L content r)
   \<and> (snd (checksums L content r) = None \<longrightarrow>
      rget (fst (checksums L content r)) ''etag'' =
        (if truthy (rget r ''etag'') then rget r ''etag'' else JStr (md5_b64 L content)))
   \<and> (\<forall>t now req st e st'. u_media_upload L t now req st = (Inl e, st') \<longrightarrow> st' = st)
   \<and> (\<forall>t now req st e st'. u_multipart_upload L t now req st = (Inl e, st') \<longrightarrow> st' = st)
   \<and> (\<forall>t now req st bucket_name obj0 e.
        map_of (params req) ''bucket_name'' = Some bucket_name \<and>
        map_of (query req) ''name'' = None \<and>
        map_of (query req) ''contentEncoding'' = None \<and>
        u_make_object_resource L t now (base_url req) bucket_name
          (rget (mp_meta (data req)) ''name'') (mp_content_type (data req))
          (JStr (str_of_nat (length (mp_content (data req)))))
          (JDict (mp_meta (data req))) = Inr obj0 \<and>
        snd (checksums L (mp_content (data req)) obj0) = Some e \<longrightarrow>
        u_multipart_upload L t now req st = (Inl e, st))"
proof -
  have main: "checksums L content r =
     (if crc32c_conflict L content r then
        (r, Some (Conflict (Crc32cMismatch (rget r ''crc32c'') (crc32c_b64 L content))))
      else if md5_conflict L content r then
        (fst (checksums L content r),
         Some (Conflict (Md5Mismatch (rget r ''md5Hash'') (md5_b64 L content))))
      else (fst (checksums L content r), None))"
    by (auto simp: checksums_def crc32c_conflict_def md5_conflict_def Let_def)
  have ok: "\<not> crc32c_conflict L content r \<Longrightarrow> \<not> md5_conflict L content r \<Longrightarrow>
      rget (fst (checksums L content r)) ''crc32c'' = JStr (crc32c_b64 L content) \<and>
      rget (fst (checksums L content r)) ''md5Hash'' = JStr (md5_b64 L content) \<and>
      rget (fst (checksums L content r)) ''etag'' =
        (if truthy (rget r ''etag'') then rget r ''etag'' else JStr (md5_b64 L content))"
    by (auto simp: checksums_def crc32c_conflict_def md5_conflict_def Let_def rget_update)
  have set_crc: "\<not> truthy (rget r ''crc32c'') \<Longrightarrow>
      rget (fst (checksums L content r)) ''crc32c'' = JStr (crc32c_b64 L content)"
    by (simp add: checksums_def Let_def rget_update)
  have set_md5: "\<not> crc32c_conflict L content r \<Longrightarrow> \<not> truthy (rget r ''md5Hash'') \<Longrightarrow>
      rget (fst (checksums L content r)) ''md5Hash'' = JStr (md5_b64 L content)"
    by (auto simp: checksums_def crc32c_conflict_def Let_def rget_update)
  have returns: "snd (checksums L content r) = None \<longleftrightarrow>
        \<not> crc32c_conflict L content r \<and> \<not> md5_conflict L content r"
    by (subst main) simp
  have crc: "crc32c_conflict L content r \<Longrightarrow> checksums L content r =
        (r, Some (Conflict (Crc32cMismatch (rget r ''crc32c'') (crc32c_b64 L content))))"
    by (subst main) simp
  have md5: "\<not> crc32c_conflict L content r \<Longrightarrow> md5_conflict L content r \<Longrightarrow>
      snd (checksums L content r) =
        Some (Conflict (Md5Mismatch (rget r ''md5Hash'') (md5_b64 L content)))"
    by (subst main) simp
  have md5_any: "md5_conflict L content r \<Longrightarrow> \<exists>c. snd (checksums L content r) = Some (Conflict c)"
    by (subst main) simp
  show ?thesis
    using ok set_crc set_md5 returns crc md5 md5_any
      media_upload_error [of L] multipart_upload_error [of L] multipart_upload_conflict [of _ _ L]
    unfolding crc32c_b64_def [symmetric] md5_b64_def [symmetric]
    by blast
qed
theorem checksums_reconcile_witness:
  "checksums sample_extern ''abc'' [] =
     ([(''crc32c'', JStr ''YWJj''), (''md5Hash'', JStr ''Y2Jh''), (''etag'', JStr ''Y2Jh'')], None)
   \<and> rget (fst (checksums sample_extern ''abc'' [])) ''crc32c'' = JStr ''YWJj''
   \<and> rget (fst (checksums sample_extern ''abc'' [])) ''md5Hash'' = JStr ''Y2Jh''
   \<and> rget (fst (checksums sample_extern ''abc'' [])) ''etag'' = JStr ''Y2Jh''
   \<and> checksums sample_extern ''abc'' [(''crc32c'', JStr ''AAAA'')] =
       ([(''crc32c'', JStr ''AAAA'')], Some (Conflict (Crc32cMismatch (JStr ''AAAA'') ''YWJj'')))
   \<and> snd (checksums sample_extern ''abc'' [(''md5Hash'', JStr ''AAAA'')]) =
       Some (Conflict (Md5Mismatch (JStr ''AAAA'') ''Y2Jh''))
   \<and> u_multipart_upload sample_extern 7 ''now'' bad_crc_request one_bucket =
       (Inl (Conflict (Crc32cMismatch (JStr ''AAAA'') ''YWJj'')), one_bucket)
   \<and> u_media_upload sample_extern 7 ''now'' lost_media_request one_bucket =
       (Inl NotFound, one_bucket)"
proof -
  have crc: "crc32c_b64 sample_extern ''abc'' = ''YWJj''"
    by (simp add: crc32c_b64_def sample_extern_def b64_char_def b64_alphabet_def)
  have md5: "md5_b64 sample_extern ''abc'' = ''Y2Jh''"
    by (simp add: md5_b64_def sample_extern_def b64_char_def b64_alphabet_def)
  have plain: "\<not> crc32c_conflict sample_extern ''abc'' []"
    "\<not> md5_conflict sample_extern ''abc'' []"
    "\<not> truthy (rget [] ''crc32c'')" "\<not> truthy (rget [] ''md5Hash'')"
    "\<not> truthy (rget [] ''etag'')"
    by (simp_all add: crc32c_conflict_def md5_conflict_def rget_def)
  have a: "snd (checksums sample_extern ''abc'' []) = None
     \<and> rget (fst (checksums sample_extern ''abc'' [])) ''crc32c'' = JStr ''YWJj''
     \<and> rget (fst (checksums sample_extern ''abc'' [])) ''md5Hash'' = JStr ''Y2Jh''
     \<and> rget (fst (checksums sample_extern ''abc'' [])) ''etag'' = JStr ''Y2Jh''"
    using checksums_reconcile [of sample_extern "''abc''" "[]"] plain
    by (simp add: crc md5)
  have a': "checksums sample_extern ''abc'' [] =
     ([(''crc32c'', JStr ''YWJj''), (''md5Hash'', JStr ''Y2Jh''), (''etag'', JStr ''Y2Jh'')], None)"
    by (simp add: checksums_def rget_def crc md5 Let_def)
  have b: "checksums sample_extern ''abc'' [(''crc32c'', JStr ''AAAA'')] =
       ([(''crc32c'', JStr ''AAAA'')], Some (Conflict (Crc32cMismatch (JStr ''AAAA'') ''YWJj'')))"
    using checksums_reconcile [of sample_extern "''abc''" "[(''crc32c'', JStr ''AAAA'')]"]
    by (simp add: crc32c_conflict_def rget_def crc)
  have c: "snd (checksums sample_extern ''abc'' [(''md5Hash'', JStr ''AAAA'')]) =
       Some (Conflict (Md5Mismatch (JStr ''AAAA'') ''Y2Jh''))"
    using checksums_reconcile [of sample_extern "''abc''" "[(''md5Hash'', JStr ''AAAA'')]"]
    by (simp add: crc32c_conflict_def md5_conflict_def rget_def crc md5)
  obtain obj0 where made:
      "u_make_object_resource sample_extern 7 ''now'' ''http://localhost'' ''b'' (JStr ''k'')
         (JStr ''text/plain'') (JStr (str_of_nat (length ''abc'')))
         (JDict [(''name'', JStr ''k''), (''crc32c'', JStr ''AAAA'')]) = Inr obj0"
    and carried: "rget obj0 ''crc32c'' = JStr ''AAAA''"
    by (simp add: u_make_object_resource_def u_patch_object_def int_of_str_def strip_def
        is_space_def nat_of_digits_def digit_val_def str_of_int_def str_of_nat.simps
        digit_char_def WRITABLE_FIELDS_def rget_def sample_extern_def Let_def)
  have d0: "snd (checksums sample_extern ''abc'' obj0) =
       Some (Conflict (Crc32cMismatch (JStr ''AAAA'') ''YWJj''))"
    using checksums_reconcile [of sample_extern "''abc''" obj0] carried
    by (simp add: crc32c_conflict_def crc)
  have d: "u_multipart_upload sample_extern 7 ''now'' bad_crc_request one_bucket =
       (Inl (Conflict (Crc32cMismatch (JStr ''AAAA'') ''YWJj'')), one_bucket)"
    using checksums_reconcile [of sample_extern "[]" "[]"] made d0
    by (simp add: bad_crc_request_def rget_def)
  have e0: "fst (u_media_upload sample_extern 7 ''now'' lost_media_request one_bucket) =
       Inl NotFound"
    by (simp add: u_media_upload_def lost_media_request_def query_first_def
        u_content_type_from_request_def get_header_def u_make_object_resource_def
        u_patch_object_def checksums_def rget_def create_file_def one_bucket_def
        create_bucket_def init_storage_def u_write_config_to_file_def Let_def)
  have e: "u_media_upload sample_extern 7 ''now'' lost_media_request one_bucket =
       (Inl NotFound, one_bucket)"
    using checksums_reconcile [of sample_extern "[]" "[]"] e0
    by (metis prod.collapse)
  show ?thesis
    using a a' b c d e by simp
qed

subsection \<open>Object round trip\<close>

text \<open>
  C9. When \<open>create_file(bucket, key, content, resource)\<close> succeeds (no session id is
  given), \<open>get_file(bucket, key)\<close> returns exactly the content and
  \<open>get_file_obj(bucket, key)\<close> returns the installed resource; if the \<open>size\<close> of the
  resource was the byte length of the content, so is the \<open>size\<close> of what is returned.
\<close>

theorem create_file_roundtrip:
  assumes "fst (create_file L st bucket_name file_name content file_obj None) = Inr ()"
    and "size_is file_obj (length content)"
  shows "get_file (snd (create_file L st bucket_name file_name content file_obj None))
           bucket_name file_name = Inr content
       \<and> (\<exists>obj. get_file_obj (snd (create_file L st bucket_name file_name content file_obj None))
                  bucket_name file_name = Inr obj
                \<and> obj = file_obj \<and> size_is obj (length content))"
proof -
  from assms(1) have ex: "map_of (buckets st) bucket_name \<noteq> None"
    by (auto simp: create_file_def split: if_splits)
  then show ?thesis
    using assms(2)
    by (auto simp: create_file_def Let_def write_file_def u_write_config_to_file_def
        get_file_def get_file_obj_def update_conv')
qed

theorem create_file_roundtrip_witness:
  "fst (create_file sample_extern one_bucket ''b'' ''a/b.txt'' ''hello'' [(''size'', JStr ''5'')] None)
     = Inr ()
   \<and> size_is [(''size'', JStr ''5'')] (length ''hello'')
   \<and> get_file (snd (create_file sample_extern one_bucket ''b'' ''a/b.txt'' ''hello''
                      [(''size'', JStr ''5'')] None)) ''b'' ''a/b.txt'' = Inr ''hello''
   \<and> get_file_obj (snd (create_file sample_extern one_bucket ''b'' ''a/b.txt'' ''hello''
                          [(''size'', JStr ''5'')] None)) ''b'' ''a/b.txt''
       = Inr [(''size'', JStr ''5'')]"
proof -
  have ok: "fst (create_file sample_extern one_bucket ''b'' ''a/b.txt'' ''hello''
                  [(''size'', JStr ''5'')] None) = Inr ()"
    by (simp add: create_file_def one_bucket_def create_bucket_def init_storage_def
        u_write_config_to_file_def Let_def)
  have sz: "size_is [(''size'', JStr ''5'')] (length ''hello'')"
    by (simp add: size_is_def rget_def str_of_nat.simps digit_char_def)
  show ?thesis
    using create_file_roundtrip [OF ok sz] ok sz by simp
qed

subsection \<open>Resumable uploads\<close>

text \<open>
  C10. \<open>add_to_resumable_upload\<close> never raises: a session without a transient file
  starts from the empty buffer, so after its first chunk the buffer is exactly that
  chunk, and the result is the one for a buffer of that length.
\<close>

theorem add_to_resumable_upload_fresh:
  assumes "files st (RESUMABLE_DIR, safe_id L file_id) = None"
  shows "fst (add_to_resumable_upload L st file_id content total_size) \<noteq> Inl NotFound
       \<and> (\<exists>r. fst (add_to_resumable_upload L st file_id content total_size) = Inr r)
       \<and> get_file (snd (add_to_resumable_upload L st file_id content total_size))
           RESUMABLE_DIR (safe_id L file_id) = Inr content
       \<and> fst (add_to_resumable_upload L st file_id content total_size) =
           Inr (if total_size \<le> int (length content) then Some (slice_to total_size content)
                else None)"
  using assms
  by (simp add: add_to_resumable_upload_def get_file_def write_file_def Let_def)

theorem add_to_resumable_upload_fresh_witness:
  "files init_storage (RESUMABLE_DIR, safe_id sample_extern ''b:k:t'') = None
   \<and> fst (add_to_resumable_upload sample_extern init_storage ''b:k:t'' ''0123'' 10) = Inr None
   \<and> get_file (snd (add_to_resumable_upload sample_extern init_storage ''b:k:t'' ''0123'' 10))
        RESUMABLE_DIR (safe_id sample_extern ''b:k:t'') = Inr ''0123''"
proof -
  have fresh: "files init_storage (RESUMABLE_DIR, safe_id sample_extern ''b:k:t'') = None"
    by (simp add: init_storage_def)
  show ?thesis
    using add_to_resumable_upload_fresh [OF fresh, of "''0123''" 10] fresh
    by auto
qed

text \<open>
  C6. \<open>add_to_resumable_upload\<close> appends the chunk to the buffer of the session, which
  then holds all the bytes received. While the buffer is shorter than the declared
  total the call returns \<open>None\<close>; once it has reached the total (a size, so not
  negative) the call returns the first \<open>total\<close> bytes of the buffer, exactly \<open>total\<close>
  of them. With a declared total of 10, a chunk of 4 bytes is incomplete and leaves
  these 4 bytes stored, and a following chunk of 6 bytes returns the 10 bytes.
\<close>

theorem add_to_resumable_upload_accumulates:
  "resumable_buffer L (snd (add_to_resumable_upload L st file_id chunk total_size)) file_id
     = resumable_buffer L st file_id @ chunk
   \<and> (int (length (resumable_buffer L st file_id @ chunk)) < total_size \<longrightarrow>
        fst (add_to_resumable_upload L st file_id chunk total_size) = Inr None)
   \<and> (0 \<le> total_size \<and> total_size \<le> int (length (resumable_buffer L st file_id @ chunk)) \<longrightarrow>
        fst (add_to_resumable_upload L st file_id chunk total_size)
          = Inr (Some (take (nat total_size) (resumable_buffer L st file_id @ chunk)))
        \<and> length (take (nat total_size) (resumable_buffer L st file_id @ chunk)) = nat total_size)
   \<and> fst (add_to_resumable_upload L init_storage file_id ''0123'' 10) = Inr None
   \<and> resumable_buffer L (snd (add_to_resumable_upload L init_storage file_id ''0123'' 10)) file_id
       = ''0123''
   \<and> fst (add_to_resumable_upload L
            (snd (add_to_resumable_upload L init_storage file_id ''0123'' 10))
            file_id ''456789'' 10) = Inr (Some ''0123456789'')
   \<and> length ''0123456789'' = 10"
proof -
  have buf: "\<And>s c t. resumable_buffer L (snd (add_to_resumable_upload L s file_id c t)) file_id
      = resumable_buffer L s file_id @ c"
    by (simp add: add_to_resumable_upload_def resumable_buffer_def get_file_def write_file_def
        Let_def split: option.splits)
  have res: "\<And>s c t. fst (add_to_resumable_upload L s file_id c t) =
      Inr (if t \<le> int (length (resumable_buffer L s file_id @ c))
           then Some (slice_to t (resumable_buffer L s file_id @ c)) else None)"
    by (simp add: add_to_resumable_upload_def resumable_buffer_def get_file_def write_file_def
        Let_def split: option.splits)
  have empty: "resumable_buffer L init_storage file_id = []"
    by (simp add: resumable_buffer_def init_storage_def)
  have len: "\<And>xs :: bytes. 0 \<le> total_size \<Longrightarrow> total_size \<le> int (length xs) \<Longrightarrow>
      length (take (nat total_size) xs) = nat total_size"
    by simp
  have "0 \<le> total_size \<and> total_size \<le> int (length (resumable_buffer L st file_id @ chunk)) \<longrightarrow>
        fst (add_to_resumable_upload L st file_id chunk total_size)
          = Inr (Some (take (nat total_size) (resumable_buffer L st file_id @ chunk)))
        \<and> length (take (nat total_size) (resumable_buffer L st file_id @ chunk)) = nat total_size"
    using len [of "resumable_buffer L st file_id @ chunk"]
    by (auto simp: res slice_to_def simp del: take_append length_append length_take)
  then show ?thesis
    by (simp add: buf res empty slice_to_def del: take_append length_append length_take)
qed

theorem add_to_resumable_upload_accumulates_witness:
  "int (length (resumable_buffer sample_extern init_storage ''b:k:t'' @ ''0123'')) < 10
   \<and> fst (add_to_resumable_upload sample_extern init_storage ''b:k:t'' ''0123'' 10) = Inr None
   \<and> (0::int) \<le> 3
   \<and> 3 \<le> int (length (resumable_buffer sample_extern init_storage ''b:k:t'' @ ''0123''))
   \<and> fst (add_to_resumable_upload sample_extern init_storage ''b:k:t'' ''0123'' 3)
       = Inr (Some ''012'')"
proof -
  have empty: "resumable_buffer sample_extern init_storage ''b:k:t'' = []"
    by (simp add: resumable_buffer_def init_storage_def)
  show ?thesis
    using add_to_resumable_upload_accumulates [of sample_extern init_storage "''b:k:t''" "''0123''" 10]
      add_to_resumable_upload_accumulates [of sample_extern init_storage "''b:k:t''" "''0123''" 3]
    by (simp add: empty)
qed

subsection \<open>Bucket deletion\<close>

lemma pending_upload_ids:
  "(length (map fst (filter (\<lambda>(file_id, file_obj). rget file_obj ''bucket'' = JStr bucket_name)
       (resumable st))) \<noteq> 0) = has_pending_upload st bucket_name"
  by (auto simp: has_pending_upload_def list_ex_iff filter_empty_conv)

text \<open>
  C7. \<open>delete_bucket\<close> raises \<open>NotFound\<close> for a bucket that does not exist; for an
  existing bucket it raises \<open>Conflict\<close> when the bucket holds an object, and
  \<open>Conflict\<close> when the bucket holds none but a resumable session targets it.
  Otherwise it returns: the bucket entry is gone, nothing is stored under the bucket
  any more while the other containers keep their files, the other dictionaries are
  as before, and the snapshot written is the new catalog. Whenever it raises, the
  storage is unchanged.
\<close>

theorem delete_bucket_guards:
  "(map_of (buckets st) bucket_name = None \<longrightarrow>
      delete_bucket st bucket_name = (Inl NotFound, st))
   \<and> (map_of (buckets st) bucket_name \<noteq> None \<and> objects_get st bucket_name \<noteq> [] \<longrightarrow>
      delete_bucket st bucket_name = (Inl (Conflict (BucketNotEmpty bucket_name)), st))
   \<and> (map_of (buckets st) bucket_name \<noteq> None \<and> objects_get st bucket_name = [] \<and>
       has_pending_upload st bucket_name \<longrightarrow>
      delete_bucket st bucket_name = (Inl (Conflict (PendingUploads bucket_name)), st))
   \<and> (map_of (buckets st) bucket_name \<noteq> None \<and> objects_get st bucket_name = [] \<and>
       \<not> has_pending_upload st bucket_name \<longrightarrow>
      fst (delete_bucket st bucket_name) = Inr ()
      \<and> buckets (snd (delete_bucket st bucket_name)) = AList.delete bucket_name (buckets st)
      \<and> map_of (buckets (snd (delete_bucket st bucket_name))) bucket_name = None
      \<and> (\<forall>k. files (snd (delete_bucket st bucket_name)) (bucket_name, k) = None)
      \<and> (\<forall>c k. c \<noteq> bucket_name \<longrightarrow>
            files (snd (delete_bucket st bucket_name)) (c, k) = files st (c, k))
      \<and> objects (snd (delete_bucket st bucket_name)) = objects st
      \<and> resumable (snd (delete_bucket st bucket_name)) = resumable st
      \<and> multipart (snd (delete_bucket st bucket_name)) = multipart st
      \<and> meta_file (snd (delete_bucket st bucket_name)) =
          Some (AList.delete bucket_name (buckets st), objects st, resumable st, multipart st))
   \<and> (\<forall>e. fst (delete_bucket st bucket_name) = Inl e \<longrightarrow>
        snd (delete_bucket st bucket_name) = st)"
proof -
  have unfolded: "delete_bucket st bucket_name =
     (if map_of (buckets st) bucket_name = None then (Inl NotFound, st)
      else if objects_get st bucket_name \<noteq> [] then
        (Inl (Conflict (BucketNotEmpty bucket_name)), st)
      else if has_pending_upload st bucket_name then
        (Inl (Conflict (PendingUploads bucket_name)), st)
      else (Inr (),
            u_write_config_to_file
              (u_delete_dir (st\<lparr>buckets := AList.delete bucket_name (buckets st)\<rparr>)
                 bucket_name)))"
    unfolding delete_bucket_def Let_def pending_upload_ids
    by (simp split: option.splits)
  show ?thesis
    unfolding unfolded
    by (simp add: u_write_config_to_file_def u_delete_dir_def delete_notin_dom map_of_eq_None_iff
        del: not_None_eq)
qed

theorem delete_bucket_guards_witness:
  "map_of (buckets init_storage) ''b'' = None
   \<and> delete_bucket init_storage ''b'' = (Inl NotFound, init_storage)
   \<and> map_of (buckets bucket_with_object) ''b'' \<noteq> None
   \<and> objects_get bucket_with_object ''b'' \<noteq> []
   \<and> delete_bucket bucket_with_object ''b'' =
       (Inl (Conflict (BucketNotEmpty ''b'')), bucket_with_object)
   \<and> map_of (buckets bucket_with_session) ''b'' \<noteq> None
   \<and> objects_get bucket_with_session ''b'' = []
   \<and> has_pending_upload bucket_with_session ''b''
   \<and> delete_bucket bucket_with_session ''b'' =
       (Inl (Conflict (PendingUploads ''b'')), bucket_with_session)
   \<and> map_of (buckets one_bucket) ''b'' \<noteq> None
   \<and> objects_get one_bucket ''b'' = []
   \<and> \<not> has_pending_upload one_bucket ''b''
   \<and> fst (delete_bucket one_bucket ''b'') = Inr ()
   \<and> buckets (snd (delete_bucket one_bucket ''b'')) = []
   \<and> meta_file (snd (delete_bucket one_bucket ''b'')) = Some ([], [], [], [])"
proof -
  have one: "buckets one_bucket = [(''b'', [(''name'', JStr ''b'')])]"
    "objects one_bucket = []" "resumable one_bucket = []" "multipart one_bucket = []"
    by (simp_all add: one_bucket_def create_bucket_def init_storage_def
        u_write_config_to_file_def)
  have obj: "buckets bucket_with_object = [(''b'', [(''name'', JStr ''b'')])]"
    "objects bucket_with_object = [(''b'', [(''k'', [(''name'', JStr ''k'')])])]"
    by (simp_all add: bucket_with_object_def create_file_def one write_file_def objects_get_def
        u_write_config_to_file_def Let_def)
  have ses: "buckets bucket_with_session = [(''b'', [(''name'', JStr ''b'')])]"
    "objects bucket_with_session = []"
    "resumable bucket_with_session =
       [(''b:k:t'', [(''name'', JStr ''k''), (''bucket'', JStr ''b'')])]"
    by (simp_all add: bucket_with_session_def create_resumable_upload_def one
        u_write_config_to_file_def Let_def)
  have h0: "map_of (buckets init_storage) ''b'' = None"
    by (simp add: init_storage_def)
  have h1: "map_of (buckets bucket_with_object) ''b'' \<noteq> None"
    "objects_get bucket_with_object ''b'' \<noteq> []"
    by (simp_all add: obj objects_get_def)
  have h2: "map_of (buckets bucket_with_session) ''b'' \<noteq> None"
    "objects_get bucket_with_session ''b'' = []"
    "has_pending_upload bucket_with_session ''b''"
    by (simp_all add: ses objects_get_def has_pending_upload_def rget_def)
  have h3: "map_of (buckets one_bucket) ''b'' \<noteq> None"
    "objects_get one_bucket ''b'' = []"
    "\<not> has_pending_upload one_bucket ''b''"
    by (simp_all add: one objects_get_def has_pending_upload_def)
  show ?thesis
    using delete_bucket_guards [of init_storage "''b''"]
      delete_bucket_guards [of bucket_with_object "''b''"]
      delete_bucket_guards [of bucket_with_session "''b''"]
      delete_bucket_guards [of one_bucket "''b''"]
      h0 h1 h2 h3
    by (simp add: one)
qed

subsection \<open>Metadata patches\<close>




subsection \<open>Multipart assembly\<close>

lemma digit_char_value: "d < 10 \<Longrightarrow> (of_char (digit_char d) :: nat) = 48 + d"
proof -
  assume "d < 10"
  then have "d \<in> {0, 1, 2, 3, 4, 5, 6, 7, 8, 9}"
    by auto
  then show ?thesis
    by (auto simp: digit_char_def)
qed

lemma digits_value_snoc:
  "digits_value (s @ [c]) = 10 * digits_value s + (of_char c - 48)"
  by (simp add: digits_value_def)

lemma digits_value_str_of_nat: "digits_value (str_of_nat n) = n"
proof (induction n rule: str_of_nat.induct)
  case (1 n)
  show ?case
  proof (cases "n < 10")
    case True
    then show ?thesis
      using digits_value_snoc [of "[]" "digit_char n"]
      by (simp add: str_of_nat.simps [of n] digit_char_value digits_value_def)
  next
    case False
    with 1 have "digits_value (str_of_nat (n div 10)) = n div 10"
      by simp
    with False show ?thesis
      by (simp add: str_of_nat.simps [of n] digits_value_snoc digit_char_value)
  qed
qed

lemma digits_value_zeros: "digits_value (replicate k CHR ''0'' @ s) = digits_value s"
proof -
  have "foldl (\<lambda>a c. 10 * a + (of_char c - 48)) (0::nat) (replicate k CHR ''0'') = 0"
    by (induction k) simp_all
  then show ?thesis
    by (simp add: digits_value_def)
qed

lemma fmt05_value: "0 \<le> i \<Longrightarrow> digits_value (fmt05 i) = nat i"
  by (simp add: fmt05_def zfill_def digits_value_zeros digits_value_str_of_nat)

lemma part_file_id_inject:
  assumes "0 \<le> i" and "0 \<le> j" and "part_file_id safe i = part_file_id safe j"
  shows "i = j"
proof -
  from assms(3) have "fmt05 i = fmt05 j"
    by (simp add: part_file_id_def)
  then have "digits_value (fmt05 i) = digits_value (fmt05 j)"
    by simp
  with assms(1,2) show ?thesis
    by (simp add: fmt05_value)
qed

lemma part_of_after_delete:
  assumes "0 \<le> n" and "n < i"
  shows "part_of (u_delete_file st MULTIPART_DIR (part_file_id safe n)) safe i = part_of st safe i"
proof -
  have "part_file_id safe i \<noteq> part_file_id safe n"
    using part_file_id_inject [of i n safe] assms by auto
  then show ?thesis
    by (simp add: part_of_def u_delete_file_def)
qed

lemma parts_found_after_delete:
  assumes "0 \<le> n"
  shows "parts_found (u_delete_file st MULTIPART_DIR (part_file_id safe n)) safe (n + 1)
           = parts_found st safe (n + 1)"
  unfolding parts_found_def
  by (rule takeWhile_cong) (simp_all add: part_of_after_delete [OF assms])

lemma parts_found_lower: "i \<in> set (parts_found st safe start) \<Longrightarrow> start \<le> i"
  unfolding parts_found_def by (auto dest: set_takeWhileD)

lemma parts_found_step:
  "parts_found st safe n =
     (if n \<le> 10000 \<and> part_of st safe n \<noteq> None then n # parts_found st safe (n + 1) else [])"
  unfolding parts_found_def by (subst upto.simps) simp

text \<open>
  The loop from part \<open>n\<close> on appends the parts found from \<open>n\<close> on and deletes exactly
  their files.
\<close>

lemma read_parts_assembles:
  "0 \<le> n \<Longrightarrow>
   read_parts safe n content st =
     (content @ concat (map (\<lambda>i. the (part_of st safe i)) (parts_found st safe n)),
      st\<lparr>files := (\<lambda>key.
            if key \<in> (\<lambda>i. (MULTIPART_DIR, part_file_id safe i)) ` set (parts_found st safe n)
            then None else files st key)\<rparr>)"
proof (induction safe n content st rule: read_parts.induct)
  case (1 safe n content st)
  show ?case
  proof (cases "n \<le> 10000 \<and> part_of st safe n \<noteq> None")
    case False
    then have "parts_found st safe n = []"
      by (subst parts_found_step) simp
    moreover from False have "read_parts safe n content st = (content, st)"
      by (subst read_parts.simps) (auto simp: get_file_def part_of_def)
    ultimately show ?thesis
      by simp
  next
    case True
    then obtain pc where pc: "part_of st safe n = Some pc" and le: "n \<le> 10000"
      by auto
    let ?st1 = "u_delete_file st MULTIPART_DIR (part_file_id safe n)"
    have got: "get_file st MULTIPART_DIR (part_file_id safe n) = Inr pc"
      using pc by (simp add: get_file_def part_of_def)
    have step: "read_parts safe n content st = read_parts safe (n + 1) (content @ pc) ?st1"
      using le got by (subst read_parts.simps) simp
    have ih: "read_parts safe (n + 1) (content @ pc) ?st1 =
       ((content @ pc) @ concat (map (\<lambda>i. the (part_of ?st1 safe i)) (parts_found ?st1 safe (n + 1))),
        ?st1\<lparr>files := (\<lambda>key.
            if key \<in> (\<lambda>i. (MULTIPART_DIR, part_file_id safe i)) ` set (parts_found ?st1 safe (n + 1))
            then None else files ?st1 key)\<rparr>)"
      using "1.IH" [OF _ got] le "1.prems" by simp
    have found: "parts_found ?st1 safe (n + 1) = parts_found st safe (n + 1)"
      using "1.prems" by (rule parts_found_after_delete)
    have unfold: "parts_found st safe n = n # parts_found st safe (n + 1)"
      using True by (subst parts_found_step) simp
    have same: "map (\<lambda>i. the (part_of ?st1 safe i)) (parts_found st safe (n + 1))
              = map (\<lambda>i. the (part_of st safe i)) (parts_found st safe (n + 1))"
    proof (rule map_cong [OF refl])
      fix i assume "i \<in> set (parts_found st safe (n + 1))"
      then have "n < i"
        using parts_found_lower [of i st safe "n + 1"] by simp
      then show "the (part_of ?st1 safe i) = the (part_of st safe i)"
        using part_of_after_delete [OF "1.prems"] by simp
    qed
    have state: "?st1\<lparr>files := (\<lambda>key.
            if key \<in> (\<lambda>i. (MULTIPART_DIR, part_file_id safe i)) ` set (parts_found st safe (n + 1))
            then None else files ?st1 key)\<rparr>
        = st\<lparr>files := (\<lambda>key.
            if key \<in> (\<lambda>i. (MULTIPART_DIR, part_file_id safe i)) ` set (parts_found st safe n)
            then None else files st key)\<rparr>"
      by (auto simp: unfold u_delete_file_def fun_eq_iff)
    show ?thesis
      unfolding step ih found same state
      by (simp add: unfold pc)
  qed
qed

lemma checksums_other_field:
  "k \<noteq> ''crc32c'' \<Longrightarrow> k \<noteq> ''md5Hash'' \<Longrightarrow> k \<noteq> ''etag'' \<Longrightarrow>
   rget (fst (checksums L content r)) k = rget r k"
  by (simp add: checksums_def Let_def rget_update)

lemma complete_multipart_upload_returns:
  assumes "map_of (multipart st) upload_id = Some upload"
    and "rget upload ''id'' = JStr file_name"
    and "rget upload ''bucket_name'' = JStr bucket_name"
    and "\<not> truthy (rget upload ''crc32c'')"
    and "\<not> truthy (rget upload ''md5Hash'')"
  shows "fst (complete_multipart_upload L st now upload_id) = Inr ()"
  using assms
  by (simp add: complete_multipart_upload_def checksums_def rget_update Let_def case_prod_unfold)

lemma read_parts_from_first:
  "read_parts safe 1 [] st =
     (assembled st safe,
      st\<lparr>files := (\<lambda>key.
            if key \<in> (\<lambda>i. (MULTIPART_DIR, part_file_id safe i)) ` set (parts_found st safe 1)
            then None else files st key)\<rparr>)"
  using read_parts_assembles [of 1 safe "[]" st] by (simp add: assembled_def)

lemma complete_multipart_upload_content:
  assumes "map_of (multipart st) upload_id = Some upload"
    and "rget upload ''id'' = JStr file_name"
    and "rget upload ''bucket_name'' = JStr bucket_name"
  shows "get_file (snd (complete_multipart_upload L st now upload_id)) bucket_name file_name
          = Inr (assembled st (safe_id L upload_id))
      \<and> (fst (complete_multipart_upload L st now upload_id) = Inr () \<longrightarrow>
           (\<exists>obj. get_file_obj (snd (complete_multipart_upload L st now upload_id))
                    bucket_name file_name = Inr obj
                  \<and> rget obj ''size'' = JInt (int (length (assembled st (safe_id L upload_id))))))"
  using assms
  by (auto simp: complete_multipart_upload_def read_parts_from_first Let_def write_file_def
      get_file_def get_file_obj_def u_write_config_to_file_def update_conv'
      checksums_other_field rget_update case_prod_unfold split: option.splits)

lemma complete_multipart_upload_sessions:
  "multipart (snd (complete_multipart_upload L st now upload_id)) = multipart st"
  by (simp add: complete_multipart_upload_def read_parts_from_first Let_def write_file_def
      u_write_config_to_file_def case_prod_unfold split: option.splits jval.splits)

lemma complete_multipart_upload_part_deleted:
  assumes "map_of (multipart st) upload_id = Some upload"
    and "rget upload ''id'' = JStr file_name"
    and "rget upload ''bucket_name'' = JStr bucket_name"
    and "bucket_name \<noteq> MULTIPART_DIR"
    and "i \<in> set (parts_found st (safe_id L upload_id) 1)"
  shows "part_of (snd (complete_multipart_upload L st now upload_id)) (safe_id L upload_id) i = None"
  using assms
  by (auto simp: complete_multipart_upload_def read_parts_from_first Let_def write_file_def
      part_of_def u_write_config_to_file_def case_prod_unfold split: option.splits)

lemma fmt05_small:
  "fmt05 1 = ''00001''" "fmt05 2 = ''00002''" "fmt05 3 = ''00003''" "fmt05 4 = ''00004''"
  by code_simp+

text \<open>
  C2. For a multipart session whose target names are strings, the loop of
  \<open>complete_multipart_upload\<close> reads the parts numbered 1 to 10000 in ascending order up
  to the first number without a part and returns their concatenation; this is the
  content written to the target object, and when the call returns normally the resource
  it installs has this content's length as \<open>size\<close>. In particular the parts 1 \<open>ab\<close>,
  2 \<open>cd\<close>, 3 \<open>ef\<close> uploaded in the order 3, 1, 2 give the content \<open>abcdef\<close>, and a
  session with part 1 \<open>ab\<close> and part 3 \<open>ef\<close> but no part 2 gives \<open>ab\<close>.
\<close>

theorem complete_multipart_upload_assembles:
  "(map_of (multipart st) upload_id = Some upload \<and> rget upload ''id'' = JStr file_name \<and>
    rget upload ''bucket_name'' = JStr bucket_name \<longrightarrow>
      fst (read_parts (safe_id L upload_id) 1 [] st) = assembled st (safe_id L upload_id)
      \<and> get_file (snd (complete_multipart_upload L st now upload_id)) bucket_name file_name
          = Inr (assembled st (safe_id L upload_id))
      \<and> (fst (complete_multipart_upload L st now upload_id) = Inr () \<longrightarrow>
           (\<exists>obj. get_file_obj (snd (complete_multipart_upload L st now upload_id))
                    bucket_name file_name = Inr obj
                  \<and> rget obj ''size'' = JInt (int (length (assembled st (safe_id L upload_id)))))))
   \<and> fst (complete_multipart_upload L
             (add_parts L session_started ''b:k:t'' [(3, ''ef''), (1, ''ab''), (2, ''cd'')])
             now ''b:k:t'') = Inr ()
   \<and> get_file (snd (complete_multipart_upload L
             (add_parts L session_started ''b:k:t'' [(3, ''ef''), (1, ''ab''), (2, ''cd'')])
             now ''b:k:t'')) ''b'' ''k'' = Inr ''abcdef''
   \<and> fst (complete_multipart_upload L
             (add_parts L session_started ''b:k:t'' [(1, ''ab''), (3, ''ef'')])
             now ''b:k:t'') = Inr ()
   \<and> get_file (snd (complete_multipart_upload L
             (add_parts L session_started ''b:k:t'' [(1, ''ab''), (3, ''ef'')])
             now ''b:k:t'')) ''b'' ''k'' = Inr ''ab''"
proof -
  note loop = read_parts_from_first
  note general = complete_multipart_upload_content [of _ _ _ _ _ L now]
  have started: "multipart session_started =
       [(''b:k:t'', [(''kind'', JStr ''storage#object''), (''bucket_name'', JStr ''b''),
                     (''id'', JStr ''k''), (''metadata'', JDict []),
                     (''contentType'', JStr ''text/plain'')])]"
    "files session_started = (\<lambda>_. None)" "objects session_started = []"
    by (simp_all add: session_started_def create_xml_multipart_upload_def one_bucket_def
        create_bucket_def init_storage_def u_write_config_to_file_def Let_def)
  define safe where "safe = safe_id L ''b:k:t''"
  define s1 where
    "s1 = add_parts L session_started ''b:k:t'' [(3, ''ef''), (1, ''ab''), (2, ''cd'')]"
  define s2 where "s2 = add_parts L session_started ''b:k:t'' [(1, ''ab''), (3, ''ef'')]"
  have s1: "multipart s1 = multipart session_started"
    "part_of s1 safe 1 = Some ''ab''" "part_of s1 safe 2 = Some ''cd''"
    "part_of s1 safe 3 = Some ''ef''" "part_of s1 safe 4 = None"
    by (simp_all add: s1_def safe_def add_to_multipart_upload_def write_file_def started part_of_def
        part_file_id_def fmt05_small)
  have s2: "multipart s2 = multipart session_started"
    "part_of s2 safe 1 = Some ''ab''" "part_of s2 safe 2 = None"
    by (simp_all add: s2_def safe_def add_to_multipart_upload_def write_file_def started part_of_def
        part_file_id_def fmt05_small)
  have a1: "assembled s1 safe = ''abcdef''"
    unfolding assembled_def
    by (subst parts_found_step, simp add: s1)+
  have a2: "assembled s2 safe = ''ab''"
    unfolding assembled_def
    by (subst parts_found_step, simp add: s2)+
  have ok: "fst (complete_multipart_upload L s now ''b:k:t'') = Inr ()"
    if "multipart s = multipart session_started" for s
    by (simp add: complete_multipart_upload_def that started rget_def loop checksums_def
        Let_def case_prod_unfold)
  have target: "map_of (multipart s) ''b:k:t'' = Some u \<Longrightarrow>
      rget u ''id'' = JStr ''k'' \<and> rget u ''bucket_name'' = JStr ''b''"
    if "multipart s = multipart session_started" for s :: storage and u
    using that by (auto simp: started rget_def)
  have e1: "get_file (snd (complete_multipart_upload L s1 now ''b:k:t'')) ''b'' ''k''
       = Inr ''abcdef''"
    using general [of s1 "''b:k:t''" _ "''k''" "''b''"] target [OF s1(1)] a1
    by (simp add: s1(1) started safe_def)
  have e2: "get_file (snd (complete_multipart_upload L s2 now ''b:k:t'')) ''b'' ''k''
       = Inr ''ab''"
    using general [of s2 "''b:k:t''" _ "''k''" "''b''"] target [OF s2(1)] a2
    by (simp add: s2(1) started safe_def)
  have examples: "fst (complete_multipart_upload L
             (add_parts L session_started ''b:k:t'' [(3, ''ef''), (1, ''ab''), (2, ''cd'')])
             now ''b:k:t'') = Inr ()
   \<and> get_file (snd (complete_multipart_upload L
             (add_parts L session_started ''b:k:t'' [(3, ''ef''), (1, ''ab''), (2, ''cd'')])
             now ''b:k:t'')) ''b'' ''k'' = Inr ''abcdef''
   \<and> fst (complete_multipart_upload L
             (add_parts L session_started ''b:k:t'' [(1, ''ab''), (3, ''ef'')])
             now ''b:k:t'') = Inr ()
   \<and> get_file (snd (complete_multipart_upload L
             (add_parts L session_started ''b:k:t'' [(1, ''ab''), (3, ''ef'')])
             now ''b:k:t'')) ''b'' ''k'' = Inr ''ab''"
    using ok [OF s1(1)] ok [OF s2(1)] e1 e2
    unfolding s1_def s2_def by blast
  have first: "map_of (multipart st) upload_id = Some upload \<and> rget upload ''id'' = JStr file_name \<and>
    rget upload ''bucket_name'' = JStr bucket_name \<longrightarrow>
      fst (read_parts (safe_id L upload_id) 1 [] st) = assembled st (safe_id L upload_id)
      \<and> get_file (snd (complete_multipart_upload L st now upload_id)) bucket_name file_name
          = Inr (assembled st (safe_id L upload_id))
      \<and> (fst (complete_multipart_upload L st now upload_id) = Inr () \<longrightarrow>
           (\<exists>obj. get_file_obj (snd (complete_multipart_upload L st now upload_id))
                    bucket_name file_name = Inr obj
                  \<and> rget obj ''size'' = JInt (int (length (assembled st (safe_id L upload_id))))))"
    using general [of st upload_id upload file_name bucket_name]
    by (simp add: loop)
  from first examples show ?thesis
    by blast
qed

theorem complete_multipart_upload_assembles_witness:
  "map_of (multipart two_parts_uploaded) ''b:k:t'' = Some session_resource
   \<and> rget session_resource ''id'' = JStr ''k''
   \<and> rget session_resource ''bucket_name'' = JStr ''b''
   \<and> assembled two_parts_uploaded (safe_id sample_extern ''b:k:t'') = ''abcd''
   \<and> fst (read_parts (safe_id sample_extern ''b:k:t'') 1 [] two_parts_uploaded) = ''abcd''
   \<and> get_file (snd (complete_multipart_upload sample_extern two_parts_uploaded ''now'' ''b:k:t''))
        ''b'' ''k'' = Inr ''abcd''
   \<and> fst (complete_multipart_upload sample_extern two_parts_uploaded ''now'' ''b:k:t'') = Inr ()
   \<and> (\<exists>obj. get_file_obj
               (snd (complete_multipart_upload sample_extern two_parts_uploaded ''now'' ''b:k:t''))
               ''b'' ''k'' = Inr obj
            \<and> rget obj ''size'' = JInt 4)"
proof -
  define safe where "safe = safe_id sample_extern ''b:k:t''"
  have started: "multipart session_started = [(''b:k:t'', session_resource)]"
    "files session_started = (\<lambda>_. None)"
    by (simp_all add: session_started_def create_xml_multipart_upload_def one_bucket_def
        create_bucket_def init_storage_def u_write_config_to_file_def session_resource_def Let_def)
  have st: "multipart two_parts_uploaded = [(''b:k:t'', session_resource)]"
    "part_of two_parts_uploaded safe 1 = Some ''ab''"
    "part_of two_parts_uploaded safe 2 = Some ''cd''"
    "part_of two_parts_uploaded safe 3 = None"
    by (simp_all add: two_parts_uploaded_def safe_def add_to_multipart_upload_def write_file_def
        started part_of_def part_file_id_def fmt05_small)
  have hyp: "map_of (multipart two_parts_uploaded) ''b:k:t'' = Some session_resource"
    "rget session_resource ''id'' = JStr ''k''"
    "rget session_resource ''bucket_name'' = JStr ''b''"
    "\<not> truthy (rget session_resource ''crc32c'')"
    "\<not> truthy (rget session_resource ''md5Hash'')"
    by (simp_all add: st session_resource_def rget_def)
  note returns = complete_multipart_upload_returns [OF hyp, of sample_extern "''now''"]
  have content: "assembled two_parts_uploaded safe = ''abcd''"
    unfolding assembled_def
    by (subst parts_found_step, simp add: st)+
  show ?thesis
    using complete_multipart_upload_assembles
      [of two_parts_uploaded "''b:k:t''" session_resource "''k''" "''b''" sample_extern "''now''"]
      hyp content returns
    by (simp add: safe_def)
qed

text \<open>
  C3 (not met by the code). \<open>complete_multipart_upload\<close> deletes the parts it has read
  but never removes the session: the dictionary of multipart sessions is the same
  after every call. On the session \<open>b:k:t\<close> with two parts, the parts are gone after
  the completion and the session record is still there, so a second completion
  returns normally instead of raising \<open>NotFound\<close> and overwrites the assembled object
  with empty content, and a further part is accepted.
\<close>

theorem complete_multipart_upload_keeps_session:
  "multipart (snd (complete_multipart_upload L st now upload_id)) = multipart st
   \<and> fst (complete_multipart_upload sample_extern two_parts_uploaded ''now'' ''b:k:t'') = Inr ()
   \<and> get_file session_completed ''b'' ''k'' = Inr ''abcd''
   \<and> part_of session_completed (safe_id sample_extern ''b:k:t'') 1 = None
   \<and> part_of session_completed (safe_id sample_extern ''b:k:t'') 2 = None
   \<and> map_of (multipart session_completed) ''b:k:t'' = Some session_resource
   \<and> fst (complete_multipart_upload sample_extern session_completed ''later'' ''b:k:t'') = Inr ()
   \<and> get_file (snd (complete_multipart_upload sample_extern session_completed ''later'' ''b:k:t''))
        ''b'' ''k'' = Inr []
   \<and> fst (add_to_multipart_upload sample_extern session_completed ''b:k:t'' 1 ''zz'') = Inr ()"
proof -
  define safe where "safe = safe_id sample_extern ''b:k:t''"
  have started: "multipart session_started = [(''b:k:t'', session_resource)]"
    "files session_started = (\<lambda>_. None)"
    by (simp_all add: session_started_def create_xml_multipart_upload_def one_bucket_def
        create_bucket_def init_storage_def u_write_config_to_file_def session_resource_def Let_def)
  have st: "multipart two_parts_uploaded = [(''b:k:t'', session_resource)]"
    "part_of two_parts_uploaded safe 1 = Some ''ab''"
    "part_of two_parts_uploaded safe 2 = Some ''cd''"
    "part_of two_parts_uploaded safe 3 = None"
    by (simp_all add: two_parts_uploaded_def safe_def add_to_multipart_upload_def write_file_def
        started part_of_def part_file_id_def fmt05_small)
  have res: "rget session_resource ''id'' = JStr ''k''"
    "rget session_resource ''bucket_name'' = JStr ''b''"
    "\<not> truthy (rget session_resource ''crc32c'')"
    "\<not> truthy (rget session_resource ''md5Hash'')"
    "''b'' \<noteq> MULTIPART_DIR"
    by (simp_all add: session_resource_def rget_def MULTIPART_DIR_def)
  have hyp: "map_of (multipart two_parts_uploaded) ''b:k:t'' = Some session_resource"
    by (simp add: st)
  have found: "parts_found two_parts_uploaded safe 1 = [1, 2]"
    by (subst parts_found_step, simp add: st)+
  have content: "assembled two_parts_uploaded safe = ''abcd''"
    by (simp add: assembled_def found st)
  have kept: "multipart session_completed = [(''b:k:t'', session_resource)]"
    by (simp add: session_completed_def complete_multipart_upload_sessions st)
  have hyp2: "map_of (multipart session_completed) ''b:k:t'' = Some session_resource"
    by (simp add: kept)
  have first: "fst (complete_multipart_upload sample_extern two_parts_uploaded ''now'' ''b:k:t'')
      = Inr ()"
    using hyp res(1-4) by (rule complete_multipart_upload_returns)
  have object: "get_file session_completed ''b'' ''k'' = Inr ''abcd''"
    using complete_multipart_upload_content [OF hyp res(1,2), of sample_extern "''now''"] content
    by (simp add: session_completed_def safe_def)
  have gone: "part_of session_completed safe 1 = None" "part_of session_completed safe 2 = None"
    using complete_multipart_upload_part_deleted [OF hyp res(1,2,5), of _ sample_extern "''now''"]
    by (simp_all add: session_completed_def safe_def [symmetric] found)
  have empty: "assembled session_completed safe = []"
    unfolding assembled_def
    by (subst parts_found_step) (simp add: gone)
  have second: "fst (complete_multipart_upload sample_extern session_completed ''later'' ''b:k:t'')
      = Inr ()"
    using hyp2 res(1-4) by (rule complete_multipart_upload_returns)
  have overwritten:
    "get_file (snd (complete_multipart_upload sample_extern session_completed ''later'' ''b:k:t''))
        ''b'' ''k'' = Inr []"
    using complete_multipart_upload_content [OF hyp2 res(1,2), of sample_extern "''later''"] empty
    by (simp add: safe_def)
  have accepted:
    "fst (add_to_multipart_upload sample_extern session_completed ''b:k:t'' 1 ''zz'') = Inr ()"
    by (simp add: add_to_multipart_upload_def kept)
  show ?thesis
    using complete_multipart_upload_sessions [of L st now upload_id]
      first object gone hyp2 second overwritten accepted
    by (simp add: safe_def)
qed

subsection \<open>Listing\<close>

lemma folder_listing_catalog:
  "buckets folder_listing = [(''b'', [(''name'', JStr ''b'')])]"
  "objects folder_listing =
     [(''b'', [(''a/1.txt'', [(''name'', JStr ''a/1.txt'')]),
               (''a/b/2.txt'', [(''name'', JStr ''a/b/2.txt'')]),
               (''a/c/3.txt'', [(''name'', JStr ''a/c/3.txt'')]),
               (''z.txt'', [(''name'', JStr ''z.txt'')])])]"
  by (simp_all add: folder_listing_def create_file_def one_bucket_def create_bucket_def
      init_storage_def write_file_def objects_get_def u_write_config_to_file_def Let_def)

lemma shared_folder_catalog:
  "buckets shared_folder = [(''b'', [(''name'', JStr ''b'')])]"
  "objects shared_folder =
     [(''b'', [(''a/b/1.txt'', [(''name'', JStr ''a/b/1.txt'')]),
               (''a/b/2.txt'', [(''name'', JStr ''a/b/2.txt'')])])]"
  by (simp_all add: shared_folder_def create_file_def one_bucket_def create_bucket_def
      init_storage_def write_file_def objects_get_def u_write_config_to_file_def Let_def)

text \<open>
  C4 (not met by the code). With a truthy prefix the objects whose key contains the
  delimiter after the prefix are left out, but with the prefix \<open>None\<close> or \<open>""\<close> the
  branch that collects the objects does not look at the delimiter: on the objects
  \<open>a/1.txt\<close>, \<open>a/b/2.txt\<close>, \<open>a/c/3.txt\<close>, \<open>z.txt\<close> with delimiter \<open>/\<close> all four
  objects are returned, although three keys contain the delimiter (and are summarised
  as common prefixes as well). \<open>None\<close> and \<open>""\<close> do behave alike.
\<close>

theorem get_file_list_no_prefix_keeps_all:
  "get_file_list folder_listing ''b'' None (Some ''/'') =
     Inr ([[(''name'', JStr ''a/1.txt'')], [(''name'', JStr ''a/b/2.txt'')],
           [(''name'', JStr ''a/c/3.txt'')], [(''name'', JStr ''z.txt'')]],
          [''a/'', ''a/'', ''a/''])
   \<and> get_file_list folder_listing ''b'' (Some []) (Some ''/'') =
       get_file_list folder_listing ''b'' None (Some ''/'')
   \<and> contains ''/'' ''a/1.txt'' \<and> contains ''/'' ''a/b/2.txt'' \<and> contains ''/'' ''a/c/3.txt''
   \<and> get_file_list st bucket_name (Some []) delimiter = get_file_list st bucket_name None delimiter"
  by (simp add: get_file_list_def folder_listing_catalog objects_get_def startswith_def)

theorem get_file_list_no_prefix_keeps_all_witness:
  "str_truthy (Some ''/'') \<and> \<not> str_truthy None \<and> \<not> str_truthy (Some [])
   \<and> contains ''/'' ''a/b/2.txt''
   \<and> [(''name'', JStr ''a/b/2.txt'')] \<in>
       set (fst (projr (get_file_list folder_listing ''b'' None (Some ''/''))))
   \<and> [(''name'', JStr ''a/b/2.txt'')] \<in>
       set (fst (projr (get_file_list folder_listing ''b'' (Some []) (Some ''/''))))"
  using get_file_list_no_prefix_keeps_all [of folder_listing "''b''" "Some ''/''"]
  by simp

text \<open>
  C5 (not met by the code). The common prefixes are computed one for each matching
  key and never deduplicated. The example of the claim comes out as stated, objects
  \<open>a/1.txt\<close> and common prefixes \<open>a/b/\<close>, \<open>a/c/\<close>; but on the objects \<open>a/b/1.txt\<close> and
  \<open>a/b/2.txt\<close> with prefix \<open>a/\<close> and delimiter \<open>/\<close> the common prefix \<open>a/b/\<close> is
  returned twice.
\<close>

theorem get_file_list_repeats_common_prefix:
  "get_file_list folder_listing ''b'' (Some ''a/'') (Some ''/'') =
     Inr ([[(''name'', JStr ''a/1.txt'')]], [''a/b/'', ''a/c/''])
   \<and> get_file_list shared_folder ''b'' (Some ''a/'') (Some ''/'') = Inr ([], [''a/b/'', ''a/b/''])
   \<and> \<not> distinct (snd (projr (get_file_list shared_folder ''b'' (Some ''a/'') (Some ''/''))))"
  by (simp add: get_file_list_def folder_listing_catalog shared_folder_catalog objects_get_def
      startswith_def)

theorem get_file_list_repeats_common_prefix_witness:
  "str_truthy (Some ''a/'') \<and> str_truthy (Some ''/'')
   \<and> contains ''/'' (drop (length ''a/'') ''a/b/1.txt'')
   \<and> contains ''/'' (drop (length ''a/'') ''a/b/2.txt'')
   \<and> snd (projr (get_file_list shared_folder ''b'' (Some ''a/'') (Some ''/''))) = [''a/b/'', ''a/b/'']
   \<and> fst (projr (get_file_list shared_folder ''b'' (Some ''a/'') (Some ''/''))) = []"
  using get_file_list_repeats_common_prefix
  by (simp add: startswith_def)

end
